theory Spec2Isabelle
  imports Main "HOL-Library.Sublist" "HOL-Library.AList"
begin

section \<open>Data model\<close>

text \<open>
  The handlers of \<^verbatim>\<open>cmd/incusd/networks.go\<close> are embedded as functions that pass a
  \<open>world\<close> along: the part of the catalog the handlers write for the network at hand, and
  the trace of the calls they made to their collaborators (catalog, driver, peers,
  authorizer, event bus), each with its outcome. The outcome of every call a handler
  cannot decide itself is an input: a field of the loaded network (the driver) or of the
  environment record of the handler.
\<close>

text \<open>A Go \<^verbatim>\<open>map[string]string\<close>; a nil map reads as the empty one.\<close>

type_synonym config = "string \<rightharpoonup> string"

text \<open>Reading a Go map at a key it does not hold gives the empty string.\<close>

definition getv :: "config \<Rightarrow> string \<Rightarrow> string" where
  "getv c k = (case c k of None \<Rightarrow> [] | Some v \<Rightarrow> v)"

datatype network_status =
  NetworkStatusPending | NetworkStatusCreated | NetworkStatusErrored | NetworkStatusUnknown

datatype client_type = ClientTypeNormal | ClientTypeNotifier | ClientTypeJoiner

text \<open>
  Go errors: a message, an error carrying an HTTP status (\<^verbatim>\<open>api.StatusErrorf\<close>), or an
  error wrapped with a prefix (\<^verbatim>\<open>fmt.Errorf("...: %w", err)\<close>). Messages that quote a
  map key found by ranging over a map are written without the key.
\<close>

datatype error = Error string | StatusError nat string | Wrap string error

text \<open>\<^verbatim>\<open>api.NetworkPut\<close> and \<^verbatim>\<open>api.NetworksPost\<close>.\<close>

record network_put =
  put_description :: string
  put_config :: config

record networks_post =
  req_name :: string
  req_type :: string
  req_description :: string
  req_config :: config

text \<open>
  A loaded network (\<^verbatim>\<open>network.Network\<close>): the accessors the handlers read, and what each
  driver call answers.
\<close>

record network =
  n_name :: string
  n_project :: string
  n_type :: string
  n_description :: string
  n_config :: config
  n_status :: network_status
  n_localStatus :: network_status
  n_isManaged :: bool
  n_validate :: "config \<Rightarrow> error option"
  n_create :: "client_type \<Rightarrow> error option"
  n_start :: "error option"
  n_delete :: "client_type \<Rightarrow> error option"
  n_update :: "network_put \<Rightarrow> string \<Rightarrow> client_type \<Rightarrow> error option"
  n_rename :: "string \<Rightarrow> error option"
  n_validateName :: "string \<Rightarrow> error option"
  n_isUsed :: "error + bool"

subsection \<open>Calls, events and the world\<close>

datatype lifecycle =
  LifecycleNetworkCreated | LifecycleNetworkUpdated | LifecycleNetworkRenamed string
  | LifecycleNetworkDeleted

datatype call =
    TxBegin | TxCommit | TxRollback
  | GetNetworkID | NetworkNodeConfigs | FillConfig
  | CreateNetworkConfig config
  | NetworkErrored | NetworkCreated | NetworkNodeCreated
  | GetNetworks | DeleteNetwork
  | NetworkProject | LoadByName string
  | NewNotifier | PeerGetServer | PeerCreateNetwork string config | PeerDeleteNetwork string
  | DriverValidate config | DriverCreate client_type | DriverStart
  | DriverDelete client_type | DriverUpdate network_put string client_type
  | DriverRename string | DriverIsUsed
  | AuthorizerRenameNetwork | AuthorizerDeleteNetwork
  | SendLifecycle lifecycle
  | UpsertWarning | ResolveWarning

datatype event = Ok call | Failed call

fun call_of :: "event \<Rightarrow> call" where
  "call_of (Ok c) = c"
| "call_of (Failed c) = c"

fun is_ok :: "event \<Rightarrow> bool" where
  "is_ok (Ok c) = True"
| "is_ok (Failed c) = False"

text \<open>
  The catalog rows of the network the request is about: whether the record exists, its
  global status, its global config (member id 0) and this member's local status.
\<close>

record catalog =
  cat_exists :: bool
  cat_status :: network_status
  cat_config :: config
  cat_localStatus :: network_status

record world =
  w_trace :: "event list"
  w_cat :: catalog

definition log :: "event \<Rightarrow> world \<Rightarrow> world" where
  "log e w = w\<lparr>w_trace := w_trace w @ [e]\<rparr>"

text \<open>A call whose outcome is given: it is logged, and an error is returned as \<open>Inl\<close>.\<close>

definition invoke :: "call \<Rightarrow> error option \<Rightarrow> world \<Rightarrow> (error + unit) \<times> world" where
  "invoke c r w = (case r of None \<Rightarrow> (Inr (), log (Ok c) w) | Some e \<Rightarrow> (Inl e, log (Failed c) w))"

text \<open>
  Modelled from the spec: \<^verbatim>\<open>s.DB.Cluster.Transaction\<close> is not in this file. The spec has
  the catalog operations of one closure "executed inside one atomic unit": the closure's
  writes are kept when it returns nil and undone when it returns an error.
\<close>

definition transaction ::
  "(world \<Rightarrow> (error + 'a) \<times> world) \<Rightarrow> world \<Rightarrow> (error + 'a) \<times> world" where
  "transaction body w =
     (case body (log (Ok TxBegin) w) of
        (Inl e, w') \<Rightarrow> (Inl e, log (Ok TxRollback) (w'\<lparr>w_cat := w_cat w\<rparr>))
      | (Inr v, w') \<Rightarrow> (Inr v, log (Ok TxCommit) w'))"

text \<open>
  Modelled from the spec: the catalog's status transitions (\<^verbatim>\<open>tx.NetworkNodeCreated\<close>,
  \<^verbatim>\<open>tx.NetworkErrored\<close>, \<^verbatim>\<open>tx.NetworkCreated\<close>) and \<^verbatim>\<open>tx.CreateNetworkConfig\<close>, which
  inserts the given keys. Each takes the error the catalog answers, if any.
\<close>

definition networkNodeCreated :: "error option \<Rightarrow> world \<Rightarrow> (error + unit) \<times> world" where
  "networkNodeCreated r w =
     invoke NetworkNodeCreated r
       (if r = None then w\<lparr>w_cat := (w_cat w)\<lparr>cat_localStatus := NetworkStatusCreated\<rparr>\<rparr> else w)"

definition networkErrored :: "error option \<Rightarrow> world \<Rightarrow> (error + unit) \<times> world" where
  "networkErrored r w =
     invoke NetworkErrored r
       (if r = None then w\<lparr>w_cat := (w_cat w)\<lparr>cat_status := NetworkStatusErrored\<rparr>\<rparr> else w)"

definition networkCreated :: "error option \<Rightarrow> world \<Rightarrow> (error + unit) \<times> world" where
  "networkCreated r w =
     invoke NetworkCreated r
       (if r = None then w\<lparr>w_cat := (w_cat w)\<lparr>cat_status := NetworkStatusCreated\<rparr>\<rparr> else w)"

definition createNetworkConfig :: "config \<Rightarrow> error option \<Rightarrow> world \<Rightarrow> (error + unit) \<times> world" where
  "createNetworkConfig c r w =
     invoke (CreateNetworkConfig c) r
       (if r = None then w\<lparr>w_cat := (w_cat w)\<lparr>cat_config := cat_config (w_cat w) ++ c\<rparr>\<rparr> else w)"

section \<open>Local actuation: doNetworksCreate\<close>

text \<open>
  Lines 797-810: the config handed to the driver's \<^verbatim>\<open>Validate\<close>. For a joiner the keys
  \<^verbatim>\<open>security.acls\<close> and those with the prefix \<^verbatim>\<open>security.acls.\<close> (with the dot) are left
  out.
\<close>

definition validateConfig :: "network \<Rightarrow> client_type \<Rightarrow> config" where
  "validateConfig n clientType =
     (if clientType = ClientTypeJoiner
      then (\<lambda>k. if k = ''security.acls'' \<or> prefix ''security.acls.'' k then None else n_config n k)
      else n_config n)"

text \<open>The deferred \<^verbatim>\<open>reverter.Fail()\<close> once \<^verbatim>\<open>n.Delete(clientType)\<close> is registered.\<close>

definition revertCreate :: "network \<Rightarrow> client_type \<Rightarrow> world \<Rightarrow> world" where
  "revertCreate n clientType w = snd (invoke (DriverDelete clientType) (n_delete n clientType) w)"

text \<open>
  Lines 793-852. \<open>nodeCreatedErr\<close> is what \<^verbatim>\<open>tx.NetworkNodeCreated\<close> answers.
\<close>

definition doNetworksCreate ::
  "error option \<Rightarrow> network \<Rightarrow> client_type \<Rightarrow> world \<Rightarrow> (error + unit) \<times> world" where
  "doNetworksCreate nodeCreatedErr n clientType w =
     (case invoke (DriverValidate (validateConfig n clientType))
             (n_validate n (validateConfig n clientType)) w of
        (Inl e, w1) \<Rightarrow> (Inl e, w1)
      | (Inr _, w1) \<Rightarrow>
          if n_localStatus n = NetworkStatusCreated then (Inr (), w1)
          else
            (case invoke (DriverCreate clientType) (n_create n clientType) w1 of
               (Inl e, w2) \<Rightarrow> (Inl e, w2)
             | (Inr _, w2) \<Rightarrow>
                 (case (if clientType \<noteq> ClientTypeJoiner
                        then invoke DriverStart (n_start n) w2 else (Inr (), w2)) of
                    (Inl e, w3) \<Rightarrow> (Inl e, revertCreate n clientType w3)
                  | (Inr _, w3) \<Rightarrow>
                      (case transaction (networkNodeCreated nodeCreatedErr) w3 of
                         (Inl e, w4) \<Rightarrow> (Inl e, revertCreate n clientType w4)
                       | (Inr _, w4) \<Rightarrow> (Inr (), w4)))))"

section \<open>Two-phase cluster create: networksPostCluster\<close>

text \<open>
  Modelled from the spec: \<^verbatim>\<open>db.IsNodeSpecificNetworkConfig\<close> is not in this file; it is the
  parameter \<open>nsk\<close> of the functions below. \<^verbatim>\<open>db.StripNodeSpecificNetworkConfig\<close> "returns
  a copy omitting node-specific keys".
\<close>

definition stripNodeSpecificNetworkConfig :: "(string \<Rightarrow> bool) \<Rightarrow> config \<Rightarrow> config" where
  "stripNodeSpecificNetworkConfig nsk c = (\<lambda>k. if nsk k then None else c k)"

text \<open>The fields of \<^verbatim>\<open>api.Network\<close> that the create path reads.\<close>

record network_info =
  ni_status :: network_status
  ni_type :: string
  ni_config :: config

text \<open>Lines 627-643.\<close>

definition networkPartiallyCreated :: "(string \<Rightarrow> bool) \<Rightarrow> network_info \<Rightarrow> bool" where
  "networkPartiallyCreated nsk netInfo =
     (if ni_status netInfo = NetworkStatusErrored then True
      else if \<exists>key \<in> dom (ni_config netInfo). \<not> nsk key then True
      else False)"

text \<open>
  A peer as the notifier's hook sees it: what \<^verbatim>\<open>client.GetServer\<close> answers (the server
  name) and what \<^verbatim>\<open>CreateNetwork\<close> and \<^verbatim>\<open>DeleteNetwork\<close> answer.
\<close>

record peer =
  p_getServer :: "error + string"
  p_createNetwork :: "networks_post \<Rightarrow> error option"
  p_deleteNetwork :: "string \<Rightarrow> error option"

text \<open>
  What the collaborators of \<open>networksPostCluster\<close> answer: the catalog calls of the first
  transaction, the driver type's \<^verbatim>\<open>FillConfig\<close> (the config with the defaults added),
  \<^verbatim>\<open>cluster.NewNotifier\<close> (the peers), \<^verbatim>\<open>network.LoadByName\<close> (a function of the catalog
  at that moment), \<^verbatim>\<open>tx.NetworkNodeCreated\<close> and \<^verbatim>\<open>tx.NetworkCreated\<close>.
\<close>

record cluster_env =
  ce_getNetworkID :: "error option"
  ce_networkNodeConfigs :: "error + (string \<rightharpoonup> config)"
  ce_fillConfig :: "config \<Rightarrow> error + config"
  ce_createNetworkConfig :: "error option"
  ce_networkErrored :: "error option"
  ce_newNotifier :: "error + peer list"
  ce_loadByName :: "catalog \<Rightarrow> error + network"
  ce_networkNodeCreated :: "error option"
  ce_networkCreated :: "error option"

text \<open>\<^verbatim>\<open>response.IsNotFoundError\<close>: the error carries the status 404.\<close>

fun isNotFoundError :: "error \<Rightarrow> bool" where
  "isNotFoundError (StatusError c m) = (c = 404)"
| "isNotFoundError (Wrap m e) = isNotFoundError e"
| "isNotFoundError (Error m) = False"

text \<open>
  Lines 671-708, the closure of the first transaction. It returns what it leaves in the
  captured variables: \<open>nodeConfigs\<close> (nil when the global config is skipped) and
  \<open>req.Config\<close>, which \<^verbatim>\<open>FillConfig\<close> changes in place.
\<close>

definition networksPostCluster_tx ::
  "(string \<Rightarrow> bool) \<Rightarrow> cluster_env \<Rightarrow> network_info option \<Rightarrow> networks_post \<Rightarrow> world
     \<Rightarrow> (error + (string \<rightharpoonup> config) \<times> config) \<times> world" where
  "networksPostCluster_tx nsk env netInfo req w =
     (if (case netInfo of None \<Rightarrow> False | Some ni \<Rightarrow> networkPartiallyCreated nsk ni)
      then
        (if req_config req \<noteq> Map.empty
         then (Inl (Error ''Network already partially created. Please do not specify any global config when re-running create''), w)
         else (Inr (Map.empty, req_config req), w))
      else
        (case invoke GetNetworkID (ce_getNetworkID env) w of
           (Inl e, w1) \<Rightarrow> (Inl e, w1)
         | (Inr _, w1) \<Rightarrow>
             (case ce_networkNodeConfigs env of
                Inl e \<Rightarrow> (Inl e, log (Failed NetworkNodeConfigs) w1)
              | Inr nodeConfigs \<Rightarrow>
                  (case ce_fillConfig env (req_config req) of
                     Inl e \<Rightarrow> (Inl e, log (Failed FillConfig) (log (Ok NetworkNodeConfigs) w1))
                   | Inr c \<Rightarrow>
                       (case createNetworkConfig c (ce_createNetworkConfig env)
                               (log (Ok FillConfig) (log (Ok NetworkNodeConfigs) w1)) of
                          (Inl e, w4) \<Rightarrow> (Inl e, w4)
                        | (Inr _, w4) \<Rightarrow>
                            (case networkErrored (ce_networkErrored env) w4 of
                               (Inl e, w5) \<Rightarrow> (Inl e, w5)
                             | (Inr _, w5) \<Rightarrow> (Inr (nodeConfigs, c), w5)))))))"

text \<open>
  Lines 742-773, the hook run against one peer: the stripped config of this member,
  the peer's own node-specific keys copied over it, sent as a fresh create request.
\<close>

definition notifyCreate ::
  "network \<Rightarrow> config \<Rightarrow> (string \<rightharpoonup> config) \<Rightarrow> peer \<Rightarrow> world \<Rightarrow> (error + unit) \<times> world" where
  "notifyCreate n netConfig nodeConfigs p w =
     (case p_getServer p of
        Inl e \<Rightarrow> (Inl e, log (Failed PeerGetServer) w)
      | Inr serverName \<Rightarrow>
          (let nodeConfig =
                 netConfig ++ (case nodeConfigs serverName of None \<Rightarrow> Map.empty | Some c \<Rightarrow> c)
           in invoke (PeerCreateNetwork serverName nodeConfig)
                (p_createNetwork p
                   \<lparr>req_name = n_name n, req_type = n_type n,
                    req_description = n_description n, req_config = nodeConfig\<rparr>)
                (log (Ok PeerGetServer) w)))"

text \<open>
  Modelled from the spec: the notifier built by \<^verbatim>\<open>cluster.NewNotifier\<close> is not in this
  file. It "invokes f against every peer in scope concurrently and returns the first
  error (or nil)": every peer is called, also after a failure. The calls are logged in
  the order of the peer list.
\<close>

fun notifier ::
  "(peer \<Rightarrow> world \<Rightarrow> (error + unit) \<times> world) \<Rightarrow> peer list \<Rightarrow> world \<Rightarrow> (error + unit) \<times> world" where
  "notifier hook [] w = (Inr (), w)"
| "notifier hook (p # ps) w =
     (case hook p w of
        (r, w1) \<Rightarrow>
          (case notifier hook ps w1 of
             (rs, w2) \<Rightarrow> ((case r of Inl e \<Rightarrow> Inl e | Inr _ \<Rightarrow> rs), w2)))"

text \<open>
  Lines 717-788: what follows the first transaction. The notifier is built, the network
  is loaded and actuated on this member, the peers are notified, and the global status
  is set to created.
\<close>

definition networksPostCluster_actuate ::
  "(string \<Rightarrow> bool) \<Rightarrow> cluster_env \<Rightarrow> networks_post \<Rightarrow> client_type \<Rightarrow> (string \<rightharpoonup> config)
     \<Rightarrow> world \<Rightarrow> (error + unit) \<times> world" where
  "networksPostCluster_actuate nsk env req clientType nodeConfigs w =
     (case ce_newNotifier env of
        Inl e \<Rightarrow> (Inl e, log (Failed NewNotifier) w)
      | Inr peers \<Rightarrow>
          (case ce_loadByName env (w_cat w) of
             Inl e \<Rightarrow>
               (Inl (Wrap ''Failed loading network'' e),
                log (Failed (LoadByName (req_name req))) (log (Ok NewNotifier) w))
           | Inr n \<Rightarrow>
               (case doNetworksCreate (ce_networkNodeCreated env) n clientType
                       (log (Ok (LoadByName (req_name req))) (log (Ok NewNotifier) w)) of
                  (Inl e, w3) \<Rightarrow> (Inl e, w3)
                | (Inr _, w3) \<Rightarrow>
                    (case notifier
                            (notifyCreate n (stripNodeSpecificNetworkConfig nsk (n_config n))
                               nodeConfigs)
                            peers w3 of
                       (Inl e, w4) \<Rightarrow> (Inl e, w4)
                     | (Inr _, w4) \<Rightarrow>
                         transaction (networkCreated (ce_networkCreated env)) w4))))"

text \<open>Lines 648-789.\<close>

definition networksPostCluster ::
  "(string \<Rightarrow> bool) \<Rightarrow> cluster_env \<Rightarrow> network_info option \<Rightarrow> networks_post \<Rightarrow> client_type
     \<Rightarrow> world \<Rightarrow> (error + unit) \<times> world" where
  "networksPostCluster nsk env netInfo req clientType w =
     (if \<exists>key \<in> dom (req_config req). nsk key
      then (Inl (Error ''Config key is cluster member specific''), w)
      else if (case netInfo of None \<Rightarrow> False | Some ni \<Rightarrow> ni_status ni = NetworkStatusCreated)
      then (Inl (Error ''The network is already created''), w)
      else if (case netInfo of None \<Rightarrow> False | Some ni \<Rightarrow> req_type req \<noteq> ni_type ni)
      then (Inl (Error ''Requested network type does not match type in existing database record''), w)
      else
        (case transaction (networksPostCluster_tx nsk env netInfo req) w of
           (Inl e, w1) \<Rightarrow>
             (if isNotFoundError e
              then (Inl (Error ''Network not pending on any node (use --target <node> first)''), w1)
              else (Inl e, w1))
         | (Inr (nodeConfigs, c), w1) \<Rightarrow>
             networksPostCluster_actuate nsk env (req\<lparr>req_config := c\<rparr>) clientType nodeConfigs w1))"

section \<open>Responses and the handlers of one network\<close>

text \<open>
  \<^verbatim>\<open>api.Network\<close> as a listing returns it, and the responses of the handlers: the
  constructors of the \<^verbatim>\<open>response\<close> package the file uses. \<open>SmartError\<close> keeps the error
  it was given; \<open>Forwarded\<close> is the answer of the member a request was forwarded to.
\<close>

record api_network =
  net_name :: string
  net_project :: string
  net_type :: string
  net_managed :: bool
  net_description :: string
  net_config :: config
  net_status :: "network_status option"
  net_usedBy :: "string list"

datatype response =
    EmptySyncResponse
  | SyncResponseLocation string
  | SyncResponseLinks "string list"
  | SyncResponseNetworks "api_network list"
  | BadRequest error
  | Conflict error
  | InternalError error
  | PreconditionFailed error
  | SmartError error
  | Forwarded string

fun is_error :: "response \<Rightarrow> bool" where
  "is_error (BadRequest e) = True"
| "is_error (Conflict e) = True"
| "is_error (InternalError e) = True"
| "is_error (PreconditionFailed e) = True"
| "is_error (SmartError e) = True"
| "is_error _ = False"

fun is_badRequest :: "response \<Rightarrow> bool" where
  "is_badRequest (BadRequest e) = True"
| "is_badRequest _ = False"

subsection \<open>Update: networkPut, networkPatch, doNetworkUpdate\<close>

text \<open>
  Lines 1471-1511. The request's config is merged first: for a PUT without a target on a
  clustered server the current node-specific keys are written over the request's, for a
  PATCH the current keys the request does not name are added.
\<close>

definition mergedConfig ::
  "(string \<Rightarrow> bool) \<Rightarrow> network \<Rightarrow> network_put \<Rightarrow> string \<Rightarrow> string \<Rightarrow> bool \<Rightarrow> config" where
  "mergedConfig nsk n req targetNode httpMethod clustered =
     (if targetNode = [] \<and> httpMethod \<noteq> ''PATCH'' \<and> clustered
      then (\<lambda>k. if nsk k \<and> n_config n k \<noteq> None then n_config n k else put_config req k)
      else if httpMethod = ''PATCH''
      then (\<lambda>k. case put_config req k of None \<Rightarrow> n_config n k | Some v \<Rightarrow> Some v)
      else put_config req)"

definition doNetworkUpdate ::
  "(string \<Rightarrow> bool) \<Rightarrow> network \<Rightarrow> network_put \<Rightarrow> string \<Rightarrow> client_type \<Rightarrow> string \<Rightarrow> bool
     \<Rightarrow> world \<Rightarrow> response \<times> world" where
  "doNetworkUpdate nsk n req targetNode clientType httpMethod clustered w =
     (let req' = req\<lparr>put_config := mergedConfig nsk n req targetNode httpMethod clustered\<rparr> in
      case invoke (DriverValidate (put_config req')) (n_validate n (put_config req')) w of
        (Inl e, w1) \<Rightarrow> (BadRequest e, w1)
      | (Inr _, w1) \<Rightarrow>
          (case invoke (DriverUpdate req' targetNode clientType)
                  (n_update n req' targetNode clientType) w1 of
             (Inl e, w2) \<Rightarrow> (SmartError e, w2)
           | (Inr _, w2) \<Rightarrow> (EmptySyncResponse, w2)))"

text \<open>
  Lines 1389-1397: the requested keys whose value is not the current one. A key the
  current config does not hold reads as the empty string there.
\<close>

definition changedConfig :: "config \<Rightarrow> config \<Rightarrow> config" where
  "changedConfig curConfig reqConfig =
     (\<lambda>key. case reqConfig key of
              None \<Rightarrow> None
            | Some v \<Rightarrow> if getv curConfig key = v then None else Some v)"

text \<open>
  The request as \<open>networkPut\<close> reads it: the \<^verbatim>\<open>target\<close> query parameter, the HTTP
  method and the client type of the User-Agent. The environment answers what the file
  does not compute: whether the request was forwarded to the target member, the
  project lookup (name and config), the unescaped network name, the loaded network,
  \<^verbatim>\<open>project.NetworkAllowed\<close>, the ETag check on the tuple it is given, and the decoded
  body.
\<close>

record put_request =
  pr_target :: string
  pr_method :: string
  pr_clientType :: client_type

type_synonym etag = "string \<times> bool \<times> string \<times> string \<times> config"

record put_env =
  pe_forwarded :: "response option"
  pe_networkProject :: "error + string \<times> config"
  pe_networkName :: "error + string"
  pe_loadByName :: "error + network"
  pe_networkAllowed :: "config \<Rightarrow> string \<Rightarrow> bool \<Rightarrow> bool"
  pe_etagCheck :: "etag \<Rightarrow> error option"
  pe_body :: "error + network_put"

text \<open>Lines 1326-1424; \<open>networkPatch\<close> (line 1465) is the same function.\<close>

definition networkPut ::
  "(string \<Rightarrow> bool) \<Rightarrow> put_env \<Rightarrow> bool \<Rightarrow> put_request \<Rightarrow> world \<Rightarrow> response \<times> world" where
  "networkPut nsk env clustered r w =
     (case pe_forwarded env of
        Some resp \<Rightarrow> (resp, w)
      | None \<Rightarrow>
     (case pe_networkProject env of
        Inl e \<Rightarrow> (SmartError e, log (Failed NetworkProject) w)
      | Inr (projectName, reqProjectConfig) \<Rightarrow>
     (case pe_networkName env of
        Inl e \<Rightarrow> (SmartError e, log (Ok NetworkProject) w)
      | Inr networkName \<Rightarrow>
     (case pe_loadByName env of
        Inl e \<Rightarrow>
          (SmartError (Wrap ''Failed loading network'' e),
           log (Failed (LoadByName networkName)) (log (Ok NetworkProject) w))
      | Inr n \<Rightarrow>
     (let w2 = log (Ok (LoadByName networkName)) (log (Ok NetworkProject) w) in
      if \<not> pe_networkAllowed env reqProjectConfig networkName (n_isManaged n)
      then (SmartError (StatusError 404 ''Network not found''), w2)
      else if pr_target r = [] \<and> n_status n \<noteq> NetworkStatusCreated
      then (BadRequest (Error ''Cannot update network global config when not in created state''), w2)
      else
     (case pe_etagCheck env
             (n_name n, n_isManaged n, n_type n, n_description n,
              if pr_target r = [] \<and> clustered
              then stripNodeSpecificNetworkConfig nsk (n_config n) else n_config n) of
        Some e \<Rightarrow> (PreconditionFailed e, w2)
      | None \<Rightarrow>
     (case pe_body env of
        Inl e \<Rightarrow> (BadRequest e, w2)
      | Inr req \<Rightarrow>
          if clustered \<and> pr_target r = []
             \<and> (\<exists>k \<in> dom (changedConfig (n_config n) (put_config req)). nsk k)
          then (BadRequest (Error ''Config key is cluster member specific''), w2)
          else if clustered \<and> pr_target r \<noteq> []
             \<and> (\<exists>k \<in> dom (changedConfig (n_config n) (put_config req)). \<not> nsk k)
          then (BadRequest (Error ''Config key may not be used as member-specific key''), w2)
          else
            (case doNetworkUpdate nsk n req (pr_target r) (pr_clientType r) (pr_method r)
                    clustered w2 of
               (resp, w3) \<Rightarrow> (resp, log (Ok (SendLifecycle LifecycleNetworkUpdated)) w3)))))))))"

text \<open>
  What the scope check of lines 1386-1414 is about. \<open>scope_violation\<close>: some requested
  key has a value that is not the current one and is of the wrong scope, node-specific
  without a target, not node-specific with one. \<open>scope_gates\<close>: the checks ahead of the
  scope check pass (project lookup, name, project access, created state without a
  target, ETag). \<open>is_update_call\<close>: the calls that follow the scope check.
\<close>

definition scope_gates :: "put_env \<Rightarrow> bool \<Rightarrow> (string \<Rightarrow> bool) \<Rightarrow> put_request \<Rightarrow> network \<Rightarrow> bool" where
  "scope_gates env clustered nsk r n =
     (case pe_networkProject env of
        Inl e \<Rightarrow> False
      | Inr (projectName, reqProjectConfig) \<Rightarrow>
          (case pe_networkName env of
             Inl e \<Rightarrow> False
           | Inr networkName \<Rightarrow>
               pe_networkAllowed env reqProjectConfig networkName (n_isManaged n)
               \<and> \<not> (pr_target r = [] \<and> n_status n \<noteq> NetworkStatusCreated)
               \<and> pe_etagCheck env
                    (n_name n, n_isManaged n, n_type n, n_description n,
                     if pr_target r = [] \<and> clustered
                     then stripNodeSpecificNetworkConfig nsk (n_config n) else n_config n) = None))"

definition scope_violation :: "(string \<Rightarrow> bool) \<Rightarrow> put_request \<Rightarrow> network \<Rightarrow> network_put \<Rightarrow> bool" where
  "scope_violation nsk r n req =
     (\<exists>k v. put_config req k = Some v \<and> getv (n_config n) k \<noteq> v
        \<and> (if pr_target r = [] then nsk k else \<not> nsk k))"

fun is_update_call :: "call \<Rightarrow> bool" where
  "is_update_call (DriverValidate c) = True"
| "is_update_call (DriverUpdate q t c) = True"
| "is_update_call (SendLifecycle l) = True"
| "is_update_call _ = False"

subsection \<open>Rename: networkPost\<close>

text \<open>
  What the rename handler is answered: the project lookup, the unescaped name, the new
  name of the decoded body, the loaded network, \<^verbatim>\<open>project.NetworkAllowed\<close>, the names
  \<^verbatim>\<open>tx.GetNetworks\<close> returns, the authorizer, and the source URL of the lifecycle event.
\<close>

record rename_env =
  re_networkProject :: "error + string \<times> config"
  re_networkName :: "error + string"
  re_body :: "error + string"
  re_loadByName :: "error + network"
  re_networkAllowed :: "config \<Rightarrow> string \<Rightarrow> bool \<Rightarrow> bool"
  re_getNetworks :: "error + string list"
  re_authorizerRename :: "error option"
  re_eventSource :: string

text \<open>Lines 1186-1285. \<open>clustered\<close> is \<^verbatim>\<open>s.ServerClustered\<close>.\<close>

definition networkPost :: "rename_env \<Rightarrow> bool \<Rightarrow> world \<Rightarrow> response \<times> world" where
  "networkPost env clustered w =
     (if clustered
      then (BadRequest (Error ''Renaming clustered network not supported''), w)
      else
     (case re_networkProject env of
        Inl e \<Rightarrow> (SmartError e, log (Failed NetworkProject) w)
      | Inr (projectName, reqProjectConfig) \<Rightarrow>
     (case re_networkName env of
        Inl e \<Rightarrow> (SmartError e, log (Ok NetworkProject) w)
      | Inr networkName \<Rightarrow>
     (case re_body env of
        Inl e \<Rightarrow> (BadRequest e, log (Ok NetworkProject) w)
      | Inr newName \<Rightarrow>
     (case re_loadByName env of
        Inl e \<Rightarrow>
          (SmartError (Wrap ''Failed loading network'' e),
           log (Failed (LoadByName networkName)) (log (Ok NetworkProject) w))
      | Inr n \<Rightarrow>
     (let w2 = log (Ok (LoadByName networkName)) (log (Ok NetworkProject) w) in
      if \<not> re_networkAllowed env reqProjectConfig networkName (n_isManaged n)
      then (SmartError (StatusError 404 ''Network not found''), w2)
      else if n_status n \<noteq> NetworkStatusCreated
      then (BadRequest (Error ''Cannot rename network when not in created state''), w2)
      else if newName = []
      then (BadRequest (Error ''New network name not provided''), w2)
      else
     (case n_validateName n newName of
        Some e \<Rightarrow> (BadRequest e, w2)
      | None \<Rightarrow>
     (case n_isUsed n of
        Inl e \<Rightarrow>
          (InternalError (Wrap ''Failed checking network in use'' e), log (Failed DriverIsUsed) w2)
      | Inr inUse \<Rightarrow>
          if inUse
          then (BadRequest (Error ''Network is currently in use''), log (Ok DriverIsUsed) w2)
          else
     (case re_getNetworks env of
        Inl e \<Rightarrow>
          (InternalError e,
           log (Ok TxRollback) (log (Failed GetNetworks) (log (Ok TxBegin) (log (Ok DriverIsUsed) w2))))
      | Inr networks \<Rightarrow>
     (let w3 = log (Ok TxCommit) (log (Ok GetNetworks) (log (Ok TxBegin) (log (Ok DriverIsUsed) w2))) in
      if newName \<in> set networks
      then (Conflict (Error ''Network already exists''), w3)
      else
     (case invoke (DriverRename newName) (n_rename n newName) w3 of
        (Inl e, w4) \<Rightarrow> (SmartError e, w4)
      | (Inr _, w4) \<Rightarrow>
          (SyncResponseLocation (re_eventSource env),
           log (Ok (SendLifecycle (LifecycleNetworkRenamed networkName)))
             (snd (invoke AuthorizerRenameNetwork (re_authorizerRename env) w4))))))))))))))"

subsection \<open>Delete: networkDelete\<close>

text \<open>
  Modelled from the spec: \<^verbatim>\<open>isClusterNotification\<close> is not in this file. "A request is
  treated as a peer-originated notification when the User-Agent parses to the notifier
  client type."
\<close>

definition isClusterNotification :: "client_type \<Rightarrow> bool" where
  "isClusterNotification clientType = (clientType = ClientTypeNotifier)"

record delete_env =
  de_networkProject :: "error + string \<times> config"
  de_networkName :: "error + string"
  de_loadByName :: "error + network"
  de_networkAllowed :: "config \<Rightarrow> string \<Rightarrow> bool \<Rightarrow> bool"
  de_newNotifier :: "error + peer list"
  de_deleteNetwork :: "error option"
  de_authorizerDelete :: "error option"

text \<open>Line 1125-1127, the hook of the delete fan-out.\<close>

definition notifyDelete :: "network \<Rightarrow> peer \<Rightarrow> world \<Rightarrow> (error + unit) \<times> world" where
  "notifyDelete n p w = invoke (PeerDeleteNetwork (n_name n)) (p_deleteNetwork p (n_name n)) w"

text \<open>
  Modelled from the spec: \<^verbatim>\<open>tx.DeleteNetwork\<close> removes the record from the catalog.
\<close>

definition deleteNetwork :: "error option \<Rightarrow> world \<Rightarrow> (error + unit) \<times> world" where
  "deleteNetwork r w =
     invoke DeleteNetwork r
       (if r = None then w\<lparr>w_cat := (w_cat w)\<lparr>cat_exists := False\<rparr>\<rparr> else w)"

text \<open>
  Lines 1118-1151: what follows the local delete for a request that is not a cluster
  notification.
\<close>

definition networkDelete_global ::
  "delete_env \<Rightarrow> bool \<Rightarrow> network \<Rightarrow> world \<Rightarrow> response \<times> world" where
  "networkDelete_global env clustered n w =
     (case (if clustered
            then (case de_newNotifier env of
                    Inl e \<Rightarrow> (Inl e, log (Failed NewNotifier) w)
                  | Inr peers \<Rightarrow> notifier (notifyDelete n) peers (log (Ok NewNotifier) w))
            else (Inr (), w)) of
        (Inl e, w1) \<Rightarrow> (SmartError e, w1)
      | (Inr _, w1) \<Rightarrow>
          (case transaction (deleteNetwork (de_deleteNetwork env)) w1 of
             (Inl e, w2) \<Rightarrow> (SmartError e, w2)
           | (Inr _, w2) \<Rightarrow>
               (EmptySyncResponse,
                log (Ok (SendLifecycle LifecycleNetworkDeleted))
                  (snd (invoke AuthorizerDeleteNetwork (de_authorizerDelete env) w2)))))"

text \<open>Lines 1066-1152. \<open>clientType\<close> is the client type of the User-Agent.\<close>

definition networkDelete ::
  "delete_env \<Rightarrow> bool \<Rightarrow> client_type \<Rightarrow> world \<Rightarrow> response \<times> world" where
  "networkDelete env clustered clientType w =
     (case de_networkProject env of
        Inl e \<Rightarrow> (SmartError e, log (Failed NetworkProject) w)
      | Inr (projectName, reqProjectConfig) \<Rightarrow>
     (case de_networkName env of
        Inl e \<Rightarrow> (SmartError e, log (Ok NetworkProject) w)
      | Inr networkName \<Rightarrow>
     (case de_loadByName env of
        Inl e \<Rightarrow>
          (SmartError (Wrap ''Failed loading network'' e),
           log (Failed (LoadByName networkName)) (log (Ok NetworkProject) w))
      | Inr n \<Rightarrow>
     (let w2 = log (Ok (LoadByName networkName)) (log (Ok NetworkProject) w) in
      if \<not> de_networkAllowed env reqProjectConfig networkName (n_isManaged n)
      then (SmartError (StatusError 404 ''Network not found''), w2)
      else
     (case (if \<not> isClusterNotification clientType
            then (case n_isUsed n of
                    Inl e \<Rightarrow> (Some (SmartError e), log (Failed DriverIsUsed) w2)
                  | Inr inUse \<Rightarrow>
                      (if inUse
                       then Some (BadRequest (Error ''The network is currently in use''))
                       else None,
                       log (Ok DriverIsUsed) w2))
            else (None, w2)) of
        (Some resp, w3) \<Rightarrow> (resp, w3)
      | (None, w3) \<Rightarrow>
     (case (if n_localStatus n \<noteq> NetworkStatusPending
            then invoke (DriverDelete clientType) (n_delete n clientType) w3
            else (Inr (), w3)) of
        (Inl e, w4) \<Rightarrow> (InternalError e, w4)
      | (Inr _, w4) \<Rightarrow>
          if isClusterNotification clientType then (EmptySyncResponse, w4)
          else networkDelete_global env clustered n w4))))))"

text \<open>
  \<open>is_delete_effect\<close>: the calls of \<open>networkDelete\<close> that follow the in-use check.
  \<open>delete_gates\<close>: the checks ahead of it pass (project lookup, name, project access).
\<close>

fun is_delete_effect :: "call \<Rightarrow> bool" where
  "is_delete_effect (DriverDelete t) = True"
| "is_delete_effect NewNotifier = True"
| "is_delete_effect (PeerDeleteNetwork s) = True"
| "is_delete_effect DeleteNetwork = True"
| "is_delete_effect AuthorizerDeleteNetwork = True"
| "is_delete_effect (SendLifecycle l) = True"
| "is_delete_effect _ = False"

definition delete_gates :: "delete_env \<Rightarrow> network \<Rightarrow> bool" where
  "delete_gates env n =
     (case de_networkProject env of
        Inl e \<Rightarrow> False
      | Inr (projectName, reqProjectConfig) \<Rightarrow>
          (case de_networkName env of
             Inl e \<Rightarrow> False
           | Inr networkName \<Rightarrow>
               de_networkAllowed env reqProjectConfig networkName (n_isManaged n)))"

section \<open>Listing: networksGet and doNetworkGet\<close>

text \<open>\<^verbatim>\<open>api.StatusErrorCheck\<close>: the error carries the given HTTP status.\<close>

fun statusErrorCheck :: "error \<Rightarrow> nat \<Rightarrow> bool" where
  "statusErrorCheck (StatusError c m) code = (c = code)"
| "statusErrorCheck (Wrap m e) code = statusErrorCheck e code"
| "statusErrorCheck (Error m) code = False"

text \<open>
  What \<open>doNetworkGet\<close> is answered: \<^verbatim>\<open>network.LoadByName\<close> for a project and a name,
  \<^verbatim>\<open>project.NetworkAllowed\<close>, \<^verbatim>\<open>net.InterfaceByName\<close> (whether the interface exists, and
  its loopback flag), the authorizer's edit permission, \<^verbatim>\<open>util.PathExists\<close>, the
  virtual switch (whether it has a bridge of that name), and \<^verbatim>\<open>network.UsedBy\<close> as the
  authorizer filters it. The locations of a network are left out of the record.
\<close>

record get_env =
  ge_loadByName :: "string \<Rightarrow> string \<Rightarrow> error + network"
  ge_networkAllowed :: "config \<Rightarrow> string \<Rightarrow> bool \<Rightarrow> bool"
  ge_interfaceByName :: "string \<Rightarrow> bool option"
  ge_checkPermission :: "string \<Rightarrow> string \<Rightarrow> error option"
  ge_pathExists :: "string \<Rightarrow> bool"
  ge_ovs :: "error + (string \<Rightarrow> bool)"
  ge_usedBy :: "string \<Rightarrow> string \<Rightarrow> string \<Rightarrow> error + string list"

text \<open>Lines 973-1012: type, description and config of the answer.\<close>

definition doNetworkGet_info ::
  "(string \<Rightarrow> bool) \<Rightarrow> get_env \<Rightarrow> bool \<Rightarrow> string \<Rightarrow> string \<Rightarrow> network option
     \<Rightarrow> error + api_network" where
  "doNetworkGet_info nsk env allNodes projectName networkName nopt =
     (let apiNet = \<lparr>net_name = networkName, net_project = projectName, net_type = [],
                     net_managed = False, net_description = [], net_config = Map.empty,
                     net_status = None, net_usedBy = []\<rparr> in
      case nopt of
        Some n \<Rightarrow>
          (case (case ge_checkPermission env projectName networkName of
                   None \<Rightarrow> Inr (n_config n)
                 | Some e \<Rightarrow> if statusErrorCheck e 403 then Inr Map.empty else Inl e) of
             Inl e \<Rightarrow> Inl e
           | Inr c \<Rightarrow>
               Inr (apiNet\<lparr>net_managed := True, net_description := n_description n,
                      net_type := n_type n,
                      net_config := (if allNodes then stripNodeSpecificNetworkConfig nsk c else c)\<rparr>))
      | None \<Rightarrow>
          if ge_interfaceByName env networkName = Some True
          then Inr (apiNet\<lparr>net_type := ''loopback''\<rparr>)
          else if ge_pathExists env (''/sys/class/net/'' @ networkName @ ''/bridge'')
          then Inr (apiNet\<lparr>net_type := ''bridge''\<rparr>)
          else if ge_pathExists env (''/proc/net/vlan/'' @ networkName)
          then Inr (apiNet\<lparr>net_type := ''vlan''\<rparr>)
          else if ge_pathExists env (''/sys/class/net/'' @ networkName @ ''/device'')
          then Inr (apiNet\<lparr>net_type := ''physical''\<rparr>)
          else if ge_pathExists env (''/sys/class/net/'' @ networkName @ ''/bonding'')
          then Inr (apiNet\<lparr>net_type := ''bond''\<rparr>)
          else
            (case ge_ovs env of
               Inl e \<Rightarrow> Inl (Wrap ''Failed to connect to OVS'' e)
             | Inr getBridge \<Rightarrow>
                 Inr (apiNet\<lparr>net_type := (if getBridge networkName then ''bridge'' else ''unknown'')\<rparr>)))"

text \<open>Lines 936-1040.\<close>

definition doNetworkGet ::
  "(string \<Rightarrow> bool) \<Rightarrow> get_env \<Rightarrow> bool \<Rightarrow> string \<Rightarrow> config \<Rightarrow> string \<Rightarrow> error + api_network" where
  "doNetworkGet nsk env allNodes projectName reqProjectConfig networkName =
     (if prefix ''veth'' networkName then Inl (StatusError 404 ''Network not found'')
      else
        (case (case ge_loadByName env projectName networkName of
                 Inl e \<Rightarrow> if statusErrorCheck e 404 then Inr None
                          else Inl (Wrap ''Failed loading network'' e)
               | Inr n \<Rightarrow> Inr (Some n)) of
           Inl e \<Rightarrow> Inl e
         | Inr nopt \<Rightarrow>
             if projectName \<noteq> ''default'' \<and> nopt = None
             then Inl (StatusError 404 ''Network not found'')
             else if \<not> ge_networkAllowed env reqProjectConfig networkName
                        (case nopt of None \<Rightarrow> False | Some n \<Rightarrow> n_isManaged n)
             then Inl (StatusError 404 ''Network not found'')
             else if ge_interfaceByName env networkName = None \<and> nopt = None
             then Inl (StatusError 404 ''Network not found'')
             else
               (case doNetworkGet_info nsk env allNodes projectName networkName nopt of
                  Inl e \<Rightarrow> Inl e
                | Inr apiNet \<Rightarrow>
                    (case (if net_type apiNet \<noteq> ''loopback''
                           then ge_usedBy env projectName networkName (net_type apiNet)
                           else Inr []) of
                       Inl e \<Rightarrow> Inl e
                     | Inr usedBy \<Rightarrow>
                         Inr (apiNet\<lparr>net_usedBy := usedBy,
                                net_status :=
                                  (case nopt of
                                     None \<Rightarrow> None
                                   | Some n \<Rightarrow>
                                       Some (if allNodes then n_status n else n_localStatus n))\<rparr>)))))"

text \<open>
  The list request: the \<^verbatim>\<open>recursion\<close> flag and \<^verbatim>\<open>all-projects\<close>. The environment answers
  the project lookup, the parse of the filter (whether it has clauses), the catalog's
  names (for all projects: project and names in the order the map is ranged over), the
  host's interface names, the permission checker, \<^verbatim>\<open>filter.Match\<close> and
  \<^verbatim>\<open>project.NetworkAllowed\<close>.
\<close>

record list_request =
  lr_recursion :: bool
  lr_allProjects :: bool

record list_env =
  le_networkProject :: "error + string \<times> config"
  le_filterParse :: "error + bool"
  le_getNetworksAllProjects :: "error + (string \<times> string list) list"
  le_getNetworks :: "string \<Rightarrow> error + string list"
  le_interfaces :: "error + string list"
  le_permissionChecker :: "error + (string \<Rightarrow> string \<Rightarrow> bool)"
  le_filterMatch :: "api_network \<Rightarrow> error + bool"
  le_networkAllowed :: "config \<Rightarrow> string \<Rightarrow> bool \<Rightarrow> bool"
  le_get :: get_env

text \<open>
  \<open>networkNames\<close> is a Go map from project to names: here the list of its entries in the
  order the final loop ranges over them (Go leaves that order open). Reading a project
  it does not hold gives nil; writing one adds an entry.
\<close>

definition namesOf :: "(string \<times> string list) list \<Rightarrow> string \<Rightarrow> string list" where
  "namesOf networkNames p = (case map_of networkNames p of None \<Rightarrow> [] | Some ns \<Rightarrow> ns)"

text \<open>Lines 247-257.\<close>

fun addInterfaces ::
  "string \<Rightarrow> (string \<times> string list) list \<Rightarrow> string list \<Rightarrow> (string \<times> string list) list" where
  "addInterfaces p networkNames [] = networkNames"
| "addInterfaces p networkNames (iface # ifaces) =
     (if prefix ''veth'' iface then addInterfaces p networkNames ifaces
      else if iface \<notin> set (namesOf networkNames p)
      then addInterfaces p (AList.update p (namesOf networkNames p @ [iface]) networkNames) ifaces
      else addInterfaces p networkNames ifaces)"

text \<open>Line 297; \<^verbatim>\<open>version.APIVersion\<close> is \<^verbatim>\<open>1.0\<close>.\<close>

definition networkURL :: "string \<Rightarrow> string" where
  "networkURL networkName = ''/1.0/networks/'' @ networkName"

text \<open>
  Lines 268-298, the loop over the names of one project. It returns early when
  \<^verbatim>\<open>filter.Match\<close> fails.
\<close>

fun listNetworks ::
  "(string \<Rightarrow> bool) \<Rightarrow> list_env \<Rightarrow> bool \<Rightarrow> bool \<Rightarrow> bool \<Rightarrow> config \<Rightarrow> (string \<Rightarrow> string \<Rightarrow> bool)
     \<Rightarrow> string \<Rightarrow> string list \<Rightarrow> string list \<times> api_network list
     \<Rightarrow> error + string list \<times> api_network list" where
  "listNetworks nsk env clustered mustLoadObjects hasClauses reqProjectConfig userHasPermission
       projectName [] acc = Inr acc"
| "listNetworks nsk env clustered mustLoadObjects hasClauses reqProjectConfig userHasPermission
       projectName (networkName # networks) acc =
     (if \<not> userHasPermission projectName networkName
      then listNetworks nsk env clustered mustLoadObjects hasClauses reqProjectConfig
             userHasPermission projectName networks acc
      else if mustLoadObjects
      then
        (case doNetworkGet nsk (le_get env) clustered projectName reqProjectConfig networkName of
           Inl e \<Rightarrow>
             listNetworks nsk env clustered mustLoadObjects hasClauses reqProjectConfig
               userHasPermission projectName networks acc
         | Inr netInfo \<Rightarrow>
             (case (if hasClauses then le_filterMatch env netInfo else Inr True) of
                Inl e \<Rightarrow> Inl e
              | Inr match \<Rightarrow>
                  if \<not> match
                  then listNetworks nsk env clustered mustLoadObjects hasClauses reqProjectConfig
                         userHasPermission projectName networks acc
                  else listNetworks nsk env clustered mustLoadObjects hasClauses reqProjectConfig
                         userHasPermission projectName networks
                         (fst acc @ [networkURL networkName], snd acc @ [netInfo])))
      else if \<not> le_networkAllowed env reqProjectConfig networkName True
      then listNetworks nsk env clustered mustLoadObjects hasClauses reqProjectConfig
             userHasPermission projectName networks acc
      else listNetworks nsk env clustered mustLoadObjects hasClauses reqProjectConfig
             userHasPermission projectName networks
             (fst acc @ [networkURL networkName], snd acc))"

text \<open>Lines 267-299, the loop over the projects.\<close>

fun listProjects ::
  "(string \<Rightarrow> bool) \<Rightarrow> list_env \<Rightarrow> bool \<Rightarrow> bool \<Rightarrow> bool \<Rightarrow> config \<Rightarrow> (string \<Rightarrow> string \<Rightarrow> bool)
     \<Rightarrow> (string \<times> string list) list \<Rightarrow> string list \<times> api_network list
     \<Rightarrow> error + string list \<times> api_network list" where
  "listProjects nsk env clustered mustLoadObjects hasClauses reqProjectConfig userHasPermission
       [] acc = Inr acc"
| "listProjects nsk env clustered mustLoadObjects hasClauses reqProjectConfig userHasPermission
       ((projectName, networks) # rest) acc =
     (case listNetworks nsk env clustered mustLoadObjects hasClauses reqProjectConfig
             userHasPermission projectName networks acc of
        Inl e \<Rightarrow> Inl e
      | Inr acc' \<Rightarrow>
          listProjects nsk env clustered mustLoadObjects hasClauses reqProjectConfig
            userHasPermission rest acc')"

text \<open>Lines 193-306. The handler calls no collaborator that changes anything.\<close>

definition networksGet ::
  "(string \<Rightarrow> bool) \<Rightarrow> list_env \<Rightarrow> bool \<Rightarrow> list_request \<Rightarrow> response" where
  "networksGet nsk env clustered r =
     (case le_networkProject env of
        Inl e \<Rightarrow> SmartError e
      | Inr (projectName, reqProjectConfig) \<Rightarrow>
     (case le_filterParse env of
        Inl e \<Rightarrow> BadRequest (Wrap ''Invalid filter'' e)
      | Inr hasClauses \<Rightarrow>
     (case (if lr_allProjects r then le_getNetworksAllProjects env
            else (case le_getNetworks env projectName of
                    Inl e \<Rightarrow> Inl e
                  | Inr networks \<Rightarrow> Inr [(projectName, networks)])) of
        Inl e \<Rightarrow> SmartError e
      | Inr networkNames \<Rightarrow>
     (case (if projectName = ''default''
            then (case le_interfaces env of
                    Inl e \<Rightarrow> Inl e
                  | Inr ifaces \<Rightarrow> Inr (addInterfaces projectName networkNames ifaces))
            else Inr networkNames) of
        Inl e \<Rightarrow> InternalError e
      | Inr networkNames' \<Rightarrow>
     (case le_permissionChecker env of
        Inl e \<Rightarrow> InternalError e
      | Inr userHasPermission \<Rightarrow>
     (case listProjects nsk env clustered (lr_recursion r \<or> hasClauses) hasClauses
             reqProjectConfig userHasPermission networkNames' ([], []) of
        Inl e \<Rightarrow> SmartError e
      | Inr (linkResults, fullResults) \<Rightarrow>
          if \<not> lr_recursion r then SyncResponseLinks linkResults
          else SyncResponseNetworks fullResults))))))"

text \<open>
  Whether the loops of lines 267-299 keep the entry \<open>n\<close> of project \<open>p\<close>: the caller may
  view it, and either the objects are not loaded and the project's policy allows the
  name, or \<open>doNetworkGet\<close> succeeds and the filter, if there is one, matches.
\<close>

definition shown ::
  "(string \<Rightarrow> bool) \<Rightarrow> list_env \<Rightarrow> bool \<Rightarrow> bool \<Rightarrow> bool \<Rightarrow> config \<Rightarrow> (string \<Rightarrow> string \<Rightarrow> bool)
     \<Rightarrow> string \<Rightarrow> string \<Rightarrow> bool" where
  "shown nsk env clustered mustLoadObjects hasClauses reqProjectConfig userHasPermission p n =
     (userHasPermission p n
      \<and> (if mustLoadObjects
         then (case doNetworkGet nsk (le_get env) clustered p reqProjectConfig n of
                 Inl e \<Rightarrow> False
               | Inr netInfo \<Rightarrow> (if hasClauses then le_filterMatch env netInfo = Inr True else True))
         else le_networkAllowed env reqProjectConfig n True))"

section \<open>Startup: networkStartup\<close>

text \<open>
  A network to initialise is a pair of project name and network name
  (\<^verbatim>\<open>network.ProjectNetwork\<close>). \<open>initNetworks\<close> holds one bucket per priority; a bucket is
  a Go map used as a set, here a list without repetition in the order it is ranged
  over.
\<close>

type_synonym project_network = "string \<times> string"

definition networkPriorityStandalone :: nat where
  "networkPriorityStandalone = 0"

definition networkPriorityPhysical :: nat where
  "networkPriorityPhysical = 1"

definition networkPriorityLogical :: nat where
  "networkPriorityLogical = 2"

datatype start_event =
    Loaded project_network
  | LoadFailed project_network
  | Dropped project_network
  | Validated project_network
  | ValidateFailed project_network
  | Moved project_network nat nat
  | Started project_network
  | StartFailed project_network
  | WarningUpserted project_network
  | WarningResolved project_network

fun is_start :: "start_event \<Rightarrow> bool" where
  "is_start (Started pn) = True"
| "is_start (StartFailed pn) = True"
| "is_start _ = False"

record startup_state =
  ss_initNetworks :: "nat \<Rightarrow> project_network list"
  ss_trace :: "start_event list"

definition emit :: "start_event \<Rightarrow> startup_state \<Rightarrow> startup_state" where
  "emit e st = st\<lparr>ss_trace := ss_trace st @ [e]\<rparr>"

text \<open>\<^verbatim>\<open>delete(initNetworks[priority], pn)\<close> and \<^verbatim>\<open>initNetworks[priority][pn] = struct{}{}\<close>.\<close>

definition bucketDelete :: "nat \<Rightarrow> project_network \<Rightarrow> startup_state \<Rightarrow> startup_state" where
  "bucketDelete priority pn st =
     st\<lparr>ss_initNetworks := (ss_initNetworks st)(priority := removeAll pn (ss_initNetworks st priority))\<rparr>"

definition bucketInsert :: "nat \<Rightarrow> project_network \<Rightarrow> startup_state \<Rightarrow> startup_state" where
  "bucketInsert priority pn st =
     st\<lparr>ss_initNetworks := (ss_initNetworks st)(priority := List.insert pn (ss_initNetworks st priority))\<rparr>"

text \<open>
  Lines 1644-1669. The warning calls cannot fail the start: their results are dropped.
\<close>

definition initNetwork :: "network \<Rightarrow> nat \<Rightarrow> startup_state \<Rightarrow> (error + unit) \<times> startup_state" where
  "initNetwork n priority st =
     (case n_start n of
        Some e \<Rightarrow>
          (Inl (Wrap ''Failed starting'' e),
           emit (WarningUpserted (n_project n, n_name n))
             (emit (StartFailed (n_project n, n_name n)) st))
      | None \<Rightarrow>
          (Inr (),
           emit (WarningResolved (n_project n, n_name n))
             (bucketDelete priority (n_project n, n_name n)
                (emit (Started (n_project n, n_name n)) st))))"

text \<open>
  Lines 1671-1722. \<open>loadByName\<close> is what \<^verbatim>\<open>network.LoadByName\<close> answers; \<open>loadedNetworks\<close>
  is the map of line 1642, which the file never writes to.
\<close>

definition loadAndInitNetwork ::
  "(project_network \<Rightarrow> error + network) \<Rightarrow> (project_network \<rightharpoonup> network) \<Rightarrow> project_network
     \<Rightarrow> nat \<Rightarrow> bool \<Rightarrow> startup_state \<Rightarrow> (error + unit) \<times> startup_state" where
  "loadAndInitNetwork loadByName loadedNetworks pn priority firstPass st =
     (case (case (if firstPass then loadedNetworks pn else None) of
              Some n \<Rightarrow> (Inr (Some n), st)
            | None \<Rightarrow>
                (case loadByName pn of
                   Inl e \<Rightarrow>
                     if statusErrorCheck e 404
                     then (Inr None, bucketDelete priority pn (emit (Dropped pn) st))
                     else (Inl (Wrap ''Failed loading'' e), emit (LoadFailed pn) st)
                 | Inr n \<Rightarrow> (Inr (Some n), emit (Loaded pn) st))) of
        (Inl e, st1) \<Rightarrow> (Inl e, st1)
      | (Inr None, st1) \<Rightarrow> (Inr (), st1)
      | (Inr (Some n), st1) \<Rightarrow>
          (case n_validate n (n_config n) of
             Some e \<Rightarrow> (Inl (Wrap ''Failed validating'' e), emit (ValidateFailed pn) st1)
           | None \<Rightarrow>
               if getv (n_config n) ''parent'' \<noteq> [] \<and> priority \<noteq> networkPriorityPhysical
               then (Inr (),
                     emit (Moved pn priority networkPriorityPhysical)
                       (bucketInsert networkPriorityPhysical pn
                          (bucketDelete priority pn (emit (Validated pn) st1))))
               else if getv (n_config n) ''network'' \<noteq> [] \<and> priority \<noteq> networkPriorityLogical
               then (Inr (),
                     emit (Moved pn priority networkPriorityLogical)
                       (bucketInsert networkPriorityLogical pn
                          (bucketDelete priority pn (emit (Validated pn) st1))))
               else initNetwork n priority (emit (Validated pn) st1)))"

text \<open>
  Lines 1726-1733 and 1761-1770: ranging over one bucket. The entries are those the
  bucket holds when the loop starts; one that has been removed before it is reached is
  not visited. An error of a visit is logged and the loop goes on.
\<close>

fun passBucket ::
  "(project_network \<Rightarrow> error + network) \<Rightarrow> (project_network \<rightharpoonup> network) \<Rightarrow> bool \<Rightarrow> nat
     \<Rightarrow> project_network list \<Rightarrow> startup_state \<Rightarrow> startup_state" where
  "passBucket loadByName loadedNetworks firstPass priority [] st = st"
| "passBucket loadByName loadedNetworks firstPass priority (pn # pns) st =
     (if pn \<in> set (ss_initNetworks st priority)
      then passBucket loadByName loadedNetworks firstPass priority pns
             (snd (loadAndInitNetwork loadByName loadedNetworks pn priority firstPass st))
      else passBucket loadByName loadedNetworks firstPass priority pns st)"

text \<open>
  Lines 1725-1734 (the first pass) and 1760-1771 (a retry pass): the buckets in priority
  order 0, 1, 2.
\<close>

definition startupPass ::
  "(project_network \<Rightarrow> error + network) \<Rightarrow> (project_network \<rightharpoonup> network) \<Rightarrow> bool
     \<Rightarrow> startup_state \<Rightarrow> startup_state" where
  "startupPass loadByName loadedNetworks firstPass st =
     (let st0 = passBucket loadByName loadedNetworks firstPass networkPriorityStandalone
                  (ss_initNetworks st networkPriorityStandalone) st;
          st1 = passBucket loadByName loadedNetworks firstPass networkPriorityPhysical
                  (ss_initNetworks st0 networkPriorityPhysical) st0
      in passBucket loadByName loadedNetworks firstPass networkPriorityLogical
           (ss_initNetworks st1 networkPriorityLogical) st1)"

text \<open>
  Lines 1612-1640: every created network of every project starts in the standalone
  bucket.
\<close>

definition initialNetworks :: "project_network list \<Rightarrow> startup_state" where
  "initialNetworks pns =
     \<lparr>ss_initNetworks = (\<lambda>priority. if priority = networkPriorityStandalone then pns else []),
      ss_trace = []\<rparr>"

section \<open>Reading the trace of a cluster create\<close>

text \<open>
  Actuation: a call to the driver of this member or to a peer. \<open>commit_prefix c\<close> is the
  trace of the first transaction when it commits: the global config \<open>c\<close> is inserted and
  the record is marked errored between one \<open>TxBegin\<close> and its \<open>TxCommit\<close>.
  \<open>before c evs\<close> are the events ahead of the first call \<open>c\<close>, \<open>after c evs\<close> those
  behind it.
\<close>

fun is_actuation :: "call \<Rightarrow> bool" where
  "is_actuation (DriverValidate c) = True"
| "is_actuation (DriverCreate t) = True"
| "is_actuation DriverStart = True"
| "is_actuation (DriverDelete t) = True"
| "is_actuation PeerGetServer = True"
| "is_actuation (PeerCreateNetwork s c) = True"
| "is_actuation _ = False"

fun is_peerCreate :: "call \<Rightarrow> bool" where
  "is_peerCreate (PeerCreateNetwork s c) = True"
| "is_peerCreate _ = False"

definition commit_prefix :: "config \<Rightarrow> event list" where
  "commit_prefix c =
     [Ok TxBegin, Ok GetNetworkID, Ok NetworkNodeConfigs, Ok FillConfig,
      Ok (CreateNetworkConfig c), Ok NetworkErrored, Ok TxCommit]"

definition before :: "call \<Rightarrow> event list \<Rightarrow> event list" where
  "before c evs = takeWhile (\<lambda>e. call_of e \<noteq> c) evs"

definition after :: "call \<Rightarrow> event list \<Rightarrow> event list" where
  "after c evs = drop 1 (dropWhile (\<lambda>e. call_of e \<noteq> c) evs)"

definition fresh_create :: "(string \<Rightarrow> bool) \<Rightarrow> network_info option \<Rightarrow> networks_post \<Rightarrow> bool" where
  "fresh_create nsk netInfo req =
     ((\<forall>key \<in> dom (req_config req). \<not> nsk key)
      \<and> (case netInfo of None \<Rightarrow> True
          | Some ni \<Rightarrow> ni_status ni \<noteq> NetworkStatusCreated \<and> req_type req = ni_type ni
                       \<and> \<not> networkPartiallyCreated nsk ni))"

definition tx_only :: "event \<Rightarrow> bool" where
  "tx_only x = (\<not> is_actuation (call_of x) \<and> call_of x \<noteq> NetworkCreated)"

fun is_globalConfigWrite :: "call \<Rightarrow> bool" where
  "is_globalConfigWrite FillConfig = True"
| "is_globalConfigWrite (CreateNetworkConfig c) = True"
| "is_globalConfigWrite _ = False"

definition local_call :: "event \<Rightarrow> bool" where
  "local_call x =
     (call_of x \<noteq> NetworkCreated \<and> \<not> is_peerCreate (call_of x)
      \<and> \<not> is_globalConfigWrite (call_of x))"

definition peer_call :: "event \<Rightarrow> bool" where
  "peer_call x = (call_of x = PeerGetServer \<or> is_peerCreate (call_of x))"

text \<open>
  The local actuation of the network \<open>n\<close> has succeeded within the events \<open>pre\<close>: the
  driver accepted the validated config and the call is among them; and unless the local
  status was already created (where \<open>doNetworksCreate\<close> returns after the validation),
  the driver's \<open>Create\<close> succeeded, its \<open>Start\<close> succeeded unless the client is a joiner,
  and \<open>NetworkNodeCreated\<close> was written, each of these calls being among the events.
\<close>

definition local_actuated :: "cluster_env \<Rightarrow> network \<Rightarrow> client_type \<Rightarrow> event list \<Rightarrow> bool" where
  "local_actuated env n ct pre =
     (n_validate n (validateConfig n ct) = None
      \<and> Ok (DriverValidate (validateConfig n ct)) \<in> set pre
      \<and> (n_localStatus n \<noteq> NetworkStatusCreated \<longrightarrow>
            n_create n ct = None \<and> Ok (DriverCreate ct) \<in> set pre
            \<and> (ct \<noteq> ClientTypeJoiner \<longrightarrow> n_start n = None \<and> Ok DriverStart \<in> set pre)
            \<and> ce_networkNodeCreated env = None \<and> Ok NetworkNodeCreated \<in> set pre))"

text \<open>
  The create on the peer \<open>p\<close> has succeeded within the events \<open>pre\<close>: the peer answered
  its name, it accepted the request made for it (the stripped config \<open>netConfig\<close> with the
  node-specific keys the catalog holds for that name), and that very call is among the
  events.
\<close>

definition peer_created ::
  "network \<Rightarrow> config \<Rightarrow> (string \<rightharpoonup> config) \<Rightarrow> peer \<Rightarrow> event list \<Rightarrow> bool" where
  "peer_created n netConfig nodeConfigs p pre =
     (case p_getServer p of
        Inl e \<Rightarrow> False
      | Inr serverName \<Rightarrow>
          p_createNetwork p
            \<lparr>req_name = n_name n, req_type = n_type n, req_description = n_description n,
             req_config =
               netConfig ++ (case nodeConfigs serverName of None \<Rightarrow> Map.empty | Some c \<Rightarrow> c)\<rparr>
            = None
          \<and> Ok (PeerCreateNetwork serverName
                 (netConfig ++ (case nodeConfigs serverName of None \<Rightarrow> Map.empty | Some c \<Rightarrow> c)))
              \<in> set pre)"

text \<open>
  What the trace must show where the created marker is written. \<open>cat\<close> is the catalog
  the network is loaded from and \<open>nodeConfigs\<close> the node-specific configs the first
  transaction fetched. Every event ahead of the first \<open>NetworkCreated\<close> is a success;
  the local actuation of the loaded network has succeeded ahead of it; the create on
  every peer of the notifier has succeeded ahead of it, with exactly one
  \<open>CreateNetwork\<close> call per peer; and no actuation follows it.
\<close>

definition actuate_ok ::
  "(string \<Rightarrow> bool) \<Rightarrow> cluster_env \<Rightarrow> client_type \<Rightarrow> catalog \<Rightarrow> (string \<rightharpoonup> config)
     \<Rightarrow> event list \<Rightarrow> bool" where
  "actuate_ok nsk env ct cat nodeConfigs evs =
     ((\<forall>x \<in> set (before NetworkCreated evs). is_ok x)
      \<and> (\<exists>peers n. ce_newNotifier env = Inr peers \<and> ce_loadByName env cat = Inr n
            \<and> local_actuated env n ct (before NetworkCreated evs)
            \<and> (\<forall>p \<in> set peers.
                  peer_created n (stripNodeSpecificNetworkConfig nsk (n_config n)) nodeConfigs p
                    (before NetworkCreated evs))
            \<and> length (filter (\<lambda>x. is_peerCreate (call_of x)) (before NetworkCreated evs))
                = length peers)
      \<and> (\<forall>x \<in> set (after NetworkCreated evs). \<not> is_actuation (call_of x)))"

section \<open>Example values\<close>

definition exampleCatalog :: catalog where
  "exampleCatalog = \<lparr>cat_exists = True, cat_status = NetworkStatusPending,
     cat_config = Map.empty, cat_localStatus = NetworkStatusPending\<rparr>"

definition exampleWorld :: world where
  "exampleWorld = \<lparr>w_trace = [], w_cat = exampleCatalog\<rparr>"

text \<open>A network with the given config and local status whose driver calls all succeed.\<close>

definition exampleNetwork :: "config \<Rightarrow> network_status \<Rightarrow> network" where
  "exampleNetwork c ls =
     \<lparr>n_name = ''n1'', n_project = ''default'', n_type = ''bridge'', n_description = [],
      n_config = c, n_status = NetworkStatusPending, n_localStatus = ls, n_isManaged = True,
      n_validate = (\<lambda>_. None), n_create = (\<lambda>_. None), n_start = None,
      n_delete = (\<lambda>_. None), n_update = (\<lambda>_ _ _. None), n_rename = (\<lambda>_. None),
      n_validateName = (\<lambda>_. None), n_isUsed = Inr False\<rparr>"

text \<open>
  A cluster where \<^verbatim>\<open>parent\<close> is the node-specific key, every catalog call succeeds and
  the peers are as given; a peer answers its name and the given outcome.
\<close>

definition exampleNsk :: "string \<Rightarrow> bool" where
  "exampleNsk k = (k = ''parent'')"

definition examplePeer :: "string \<Rightarrow> error option \<Rightarrow> peer" where
  "examplePeer name r =
     \<lparr>p_getServer = Inr name, p_createNetwork = (\<lambda>_. r), p_deleteNetwork = (\<lambda>_. r)\<rparr>"

definition exampleClusterEnv :: "peer list \<Rightarrow> cluster_env" where
  "exampleClusterEnv peers =
     \<lparr>ce_getNetworkID = None,
      ce_networkNodeConfigs = Inr [''b'' \<mapsto> [''parent'' \<mapsto> ''eth1'']],
      ce_fillConfig = (\<lambda>c. Inr c),
      ce_createNetworkConfig = None,
      ce_networkErrored = None,
      ce_newNotifier = Inr peers,
      ce_loadByName =
        (\<lambda>cat. Inr (exampleNetwork (cat_config cat ++ [''parent'' \<mapsto> ''eth0''])
                      (cat_localStatus cat))),
      ce_networkNodeCreated = None,
      ce_networkCreated = None\<rparr>"

definition exampleRequest :: "config \<Rightarrow> networks_post" where
  "exampleRequest c =
     \<lparr>req_name = ''n1'', req_type = ''bridge'', req_description = [], req_config = c\<rparr>"

text \<open>
  An update handled on this member: every check ahead of the scope check passes, the
  loaded network and the decoded body are as given.
\<close>

definition examplePutEnv :: "network \<Rightarrow> network_put \<Rightarrow> put_env" where
  "examplePutEnv n req =
     \<lparr>pe_forwarded = None, pe_networkProject = Inr (''default'', Map.empty),
      pe_networkName = Inr (n_name n), pe_loadByName = Inr n,
      pe_networkAllowed = (\<lambda>_ _ _. True), pe_etagCheck = (\<lambda>_. None), pe_body = Inr req\<rparr>"

definition examplePut :: "string \<Rightarrow> put_request" where
  "examplePut target = \<lparr>pr_target = target, pr_method = ''PUT'', pr_clientType = ClientTypeNormal\<rparr>"

text \<open>
  A rename and a delete of the given network on which every lookup succeeds.
\<close>

definition exampleRenameEnv :: "network \<Rightarrow> string \<Rightarrow> rename_env" where
  "exampleRenameEnv n newName =
     \<lparr>re_networkProject = Inr (''default'', Map.empty), re_networkName = Inr (n_name n),
      re_body = Inr newName, re_loadByName = Inr n, re_networkAllowed = (\<lambda>_ _ _. True),
      re_getNetworks = Inr [n_name n], re_authorizerRename = None,
      re_eventSource = ''/1.0/networks/'' @ newName\<rparr>"

definition exampleDeleteEnv :: "network \<Rightarrow> peer list \<Rightarrow> delete_env" where
  "exampleDeleteEnv n peers =
     \<lparr>de_networkProject = Inr (''default'', Map.empty), de_networkName = Inr (n_name n),
      de_loadByName = Inr n, de_networkAllowed = (\<lambda>_ _ _. True),
      de_newNotifier = Inr peers, de_deleteNetwork = None, de_authorizerDelete = None\<rparr>"

text \<open>
  A host where \<^verbatim>\<open>n1\<close> is the only network the driver loads and every interface exists;
  a listing environment with the given catalog names, interface names and permission
  checker, no filter, and a second project \<^verbatim>\<open>p1\<close> with the same names.
\<close>

definition exampleGetEnv :: get_env where
  "exampleGetEnv =
     \<lparr>ge_loadByName =
        (\<lambda>p n. if n = ''n1'' then Inr (exampleNetwork Map.empty NetworkStatusCreated)
               else Inl (StatusError 404 ''Network not found'')),
      ge_networkAllowed = (\<lambda>_ _ _. True), ge_interfaceByName = (\<lambda>_. Some False),
      ge_checkPermission = (\<lambda>_ _. None), ge_pathExists = (\<lambda>_. False),
      ge_ovs = Inr (\<lambda>_. False), ge_usedBy = (\<lambda>_ _ _. Inr [])\<rparr>"

definition exampleListEnv ::
  "string list \<Rightarrow> string list \<Rightarrow> (string \<Rightarrow> string \<Rightarrow> bool) \<Rightarrow> list_env" where
  "exampleListEnv managed ifaces perm =
     \<lparr>le_networkProject = Inr (''default'', Map.empty), le_filterParse = Inr False,
      le_getNetworksAllProjects = Inr [(''default'', managed), (''p1'', managed)],
      le_getNetworks = (\<lambda>_. Inr managed), le_interfaces = Inr ifaces,
      le_permissionChecker = Inr perm, le_filterMatch = (\<lambda>_. Inr True),
      le_networkAllowed = (\<lambda>_ _ _. True), le_get = exampleGetEnv\<rparr>"

text \<open>
  The listing the claim C8 describes, in the claim's words: the returned names are the
  managed names and the interface names that do not start with \<^verbatim>\<open>veth\<close>, each once.
\<close>

definition claimed_listing :: "response \<Rightarrow> string list \<Rightarrow> string list \<Rightarrow> bool" where
  "claimed_listing resp managed ifaces =
     (case resp of
        SyncResponseLinks links \<Rightarrow>
          distinct links
          \<and> set links = networkURL ` (set managed \<union> {i \<in> set ifaces. \<not> prefix ''veth'' i})
      | SyncResponseNetworks infos \<Rightarrow>
          distinct (map net_name infos)
          \<and> set (map net_name infos) = set managed \<union> {i \<in> set ifaces. \<not> prefix ''veth'' i}
      | _ \<Rightarrow> False)"

text \<open>
  A catalog whose only network is \<^verbatim>\<open>n1\<close> of the default project, with the given config.
\<close>

definition exampleLoad :: "config \<Rightarrow> project_network \<Rightarrow> error + network" where
  "exampleLoad c pn =
     (if pn = (''default'', ''n1'') then Inr (exampleNetwork c NetworkStatusCreated)
      else Inl (StatusError 404 ''Network not found''))"

text \<open>
  What the claim C9 says of one pass, in the claim's words: a network that the pass
  moves to the physical bucket is not started in that pass.
\<close>

definition claimed_skips_pass :: "start_event list \<Rightarrow> bool" where
  "claimed_skips_pass tr =
     (\<forall>pn from. Moved pn from networkPriorityPhysical \<in> set tr \<longrightarrow>
        Started pn \<notin> set tr \<and> StartFailed pn \<notin> set tr)"

text \<open>
  A record left errored by an earlier create, with its global config in the catalog.
\<close>

definition examplePartial :: network_info where
  "examplePartial =
     \<lparr>ni_status = NetworkStatusErrored, ni_type = ''bridge'',
      ni_config = [''mtu'' \<mapsto> ''9000'']\<rparr>"

definition examplePartialWorld :: world where
  "examplePartialWorld =
     \<lparr>w_trace = [],
      w_cat = \<lparr>cat_exists = True, cat_status = NetworkStatusErrored,
               cat_config = [''mtu'' \<mapsto> ''9000''],
               cat_localStatus = NetworkStatusPending\<rparr>\<rparr>"

text \<open>
  The config the claim C4 describes for a joiner, in the claim's words: every key that
  is equal to \<^verbatim>\<open>security.acls\<close> or begins with \<^verbatim>\<open>security.acls\<close> is removed.
\<close>

definition claimed_joinerConfig :: "config \<Rightarrow> config" where
  "claimed_joinerConfig c =
     (\<lambda>k. if k = ''security.acls'' \<or> prefix ''security.acls'' k then None else c k)"

section \<open>Facts about the traces of the create path\<close>

lemma invoke_None [simp]: "invoke c None w = (Inr (), log (Ok c) w)"
  by (simp add: invoke_def)

lemma invoke_Some [simp]: "invoke c (Some e) w = (Inl e, log (Failed c) w)"
  by (simp add: invoke_def)

lemma w_trace_log [simp]: "w_trace (log e w) = w_trace w @ [e]"
  by (simp add: log_def)

lemma w_cat_log [simp]: "w_cat (log e w) = w_cat w"
  by (simp add: log_def)

lemma revertCreate_trace:
  "w_trace (revertCreate n ct w) =
     w_trace w @ [if n_delete n ct = None then Ok (DriverDelete ct) else Failed (DriverDelete ct)]"
  by (cases "n_delete n ct") (simp_all add: revertCreate_def)

lemma revertCreate_cat [simp]: "w_cat (revertCreate n ct w) = w_cat w"
  by (cases "n_delete n ct") (simp_all add: revertCreate_def)

lemma nodeCreated_tx:
  "transaction (networkNodeCreated r) w =
     (case r of
        None \<Rightarrow>
          (Inr (), w\<lparr>w_trace := w_trace w @ [Ok TxBegin, Ok NetworkNodeCreated, Ok TxCommit],
                      w_cat := (w_cat w)\<lparr>cat_localStatus := NetworkStatusCreated\<rparr>\<rparr>)
      | Some e \<Rightarrow>
          (Inl e, w\<lparr>w_trace := w_trace w @ [Ok TxBegin, Failed NetworkNodeCreated, Ok TxRollback]\<rparr>))"
  by (cases r) (simp_all add: transaction_def networkNodeCreated_def log_def)

lemma tx_fresh:
  assumes "\<not> (case netInfo of None \<Rightarrow> False | Some ni \<Rightarrow> networkPartiallyCreated nsk ni)"
  shows "(\<exists>e evs. fst (transaction (networksPostCluster_tx nsk env netInfo req) w) = Inl e
                \<and> w_trace (snd (transaction (networksPostCluster_tx nsk env netInfo req) w))
                     = w_trace w @ evs
                \<and> w_cat (snd (transaction (networksPostCluster_tx nsk env netInfo req) w)) = w_cat w
                \<and> (\<forall>x \<in> set evs. tx_only x) \<and> (\<exists>more. evs = Ok TxBegin # more))
       \<or> (\<exists>ncs c. ce_fillConfig env (req_config req) = Inr c
            \<and> ce_networkNodeConfigs env = Inr ncs
            \<and> fst (transaction (networksPostCluster_tx nsk env netInfo req) w) = Inr (ncs, c)
            \<and> w_trace (snd (transaction (networksPostCluster_tx nsk env netInfo req) w))
                 = w_trace w @ commit_prefix c
            \<and> w_cat (snd (transaction (networksPostCluster_tx nsk env netInfo req) w))
                 = (w_cat w)\<lparr>cat_config := cat_config (w_cat w) ++ c,
                              cat_status := NetworkStatusErrored\<rparr>)"
  using assms
  by (cases "ce_getNetworkID env"; cases "ce_networkNodeConfigs env";
      cases "ce_fillConfig env (req_config req)"; cases "ce_createNetworkConfig env";
      cases "ce_networkErrored env")
     (simp_all add: transaction_def networksPostCluster_tx_def createNetworkConfig_def
       networkErrored_def commit_prefix_def tx_only_def)

lemma doNetworksCreate_shape:
  "\<exists>evs. w_trace (snd (doNetworksCreate r n ct w)) = w_trace w @ evs
      \<and> (\<forall>x \<in> set evs. local_call x)
      \<and> (fst (doNetworksCreate r n ct w) = Inr () \<longrightarrow>
           (\<forall>x \<in> set evs. is_ok x) \<and> Ok (DriverValidate (validateConfig n ct)) \<in> set evs)
      \<and> (fst (doNetworksCreate r n ct w) \<noteq> Inr () \<longrightarrow> (\<exists>x \<in> set evs. \<not> is_ok x))
      \<and> cat_status (w_cat (snd (doNetworksCreate r n ct w))) = cat_status (w_cat w)
      \<and> cat_config (w_cat (snd (doNetworksCreate r n ct w))) = cat_config (w_cat w)"
  by (cases "n_validate n (validateConfig n ct)"; cases "n_create n ct"; cases "n_start n";
      cases r)
     (auto simp add: doNetworksCreate_def nodeCreated_tx revertCreate_trace local_call_def)

lemma doNetworksCreate_success:
  assumes "fst (doNetworksCreate (ce_networkNodeCreated env) n ct w) = Inr ()"
    and "w_trace (snd (doNetworksCreate (ce_networkNodeCreated env) n ct w)) = w_trace w @ evs"
  shows "local_actuated env n ct evs"
  using assms
  by (cases "n_validate n (validateConfig n ct)"; cases "n_create n ct"; cases "n_start n";
      cases "ce_networkNodeCreated env"; cases "ct = ClientTypeJoiner")
     (auto simp add: doNetworksCreate_def nodeCreated_tx revertCreate_trace local_actuated_def
        split: if_splits)

lemma local_actuated_mono:
  "local_actuated env n ct evs \<Longrightarrow> set evs \<subseteq> set evs' \<Longrightarrow> local_actuated env n ct evs'"
  by (auto simp: local_actuated_def)

lemma peer_created_mono:
  "peer_created n nc ncs p evs \<Longrightarrow> set evs \<subseteq> set evs' \<Longrightarrow> peer_created n nc ncs p evs'"
  by (auto simp: peer_created_def split: sum.splits)

lemma notifyCreate_shape:
  "\<exists>evs. w_trace (snd (notifyCreate n nc ncs p w)) = w_trace w @ evs
      \<and> (\<forall>x \<in> set evs. peer_call x)
      \<and> (fst (notifyCreate n nc ncs p w) = Inr () \<longrightarrow>
            (\<forall>x \<in> set evs. is_ok x) \<and> length (filter (\<lambda>x. is_peerCreate (call_of x)) evs) = 1
            \<and> peer_created n nc ncs p evs)
      \<and> (fst (notifyCreate n nc ncs p w) \<noteq> Inr () \<longrightarrow> (\<exists>x \<in> set evs. \<not> is_ok x))
      \<and> w_cat (snd (notifyCreate n nc ncs p w)) = w_cat w"
proof (cases "p_getServer p")
  case (Inl e)
  then show ?thesis by (simp add: notifyCreate_def peer_call_def)
next
  case (Inr s)
  then show ?thesis
    by (cases "p_createNetwork p \<lparr>req_name = n_name n, req_type = n_type n,
                    req_description = n_description n,
                    req_config = nc ++ (case ncs s of None \<Rightarrow> Map.empty | Some c \<Rightarrow> c)\<rparr>")
       (simp_all add: notifyCreate_def peer_call_def peer_created_def Let_def)
qed

lemma notifier_shape:
  "\<exists>evs. w_trace (snd (notifier (notifyCreate n nc ncs) ps w)) = w_trace w @ evs
      \<and> (\<forall>x \<in> set evs. peer_call x)
      \<and> (fst (notifier (notifyCreate n nc ncs) ps w) = Inr () \<longrightarrow>
            (\<forall>x \<in> set evs. is_ok x)
            \<and> length (filter (\<lambda>x. is_peerCreate (call_of x)) evs) = length ps
            \<and> (\<forall>q \<in> set ps. peer_created n nc ncs q evs))
      \<and> (fst (notifier (notifyCreate n nc ncs) ps w) \<noteq> Inr () \<longrightarrow> (\<exists>x \<in> set evs. \<not> is_ok x))
      \<and> w_cat (snd (notifier (notifyCreate n nc ncs) ps w)) = w_cat w"
proof (induction ps arbitrary: w)
  case Nil
  then show ?case by simp
next
  case (Cons p ps)
  obtain r w1 where h: "notifyCreate n nc ncs p w = (r, w1)" by (cases "notifyCreate n nc ncs p w")
  obtain rs w2 where t: "notifier (notifyCreate n nc ncs) ps w1 = (rs, w2)"
    by (cases "notifier (notifyCreate n nc ncs) ps w1")
  from notifyCreate_shape [of n nc ncs p w] h obtain e1 where
    e1: "w_trace w1 = w_trace w @ e1" "\<forall>x \<in> set e1. peer_call x"
        "r = Inr () \<longrightarrow> (\<forall>x \<in> set e1. is_ok x) \<and> length (filter (\<lambda>x. is_peerCreate (call_of x)) e1) = 1
             \<and> peer_created n nc ncs p e1"
        "r \<noteq> Inr () \<longrightarrow> (\<exists>x \<in> set e1. \<not> is_ok x)" "w_cat w1 = w_cat w"
    by auto
  from Cons.IH [of w1] t obtain e2 where
    e2: "w_trace w2 = w_trace w1 @ e2" "\<forall>x \<in> set e2. peer_call x"
        "rs = Inr () \<longrightarrow> (\<forall>x \<in> set e2. is_ok x) \<and> length (filter (\<lambda>x. is_peerCreate (call_of x)) e2) = length ps
             \<and> (\<forall>q \<in> set ps. peer_created n nc ncs q e2)"
        "rs \<noteq> Inr () \<longrightarrow> (\<exists>x \<in> set e2. \<not> is_ok x)" "w_cat w2 = w_cat w1"
    by auto
  have res: "notifier (notifyCreate n nc ncs) (p # ps) w = ((case r of Inl e \<Rightarrow> Inl e | Inr _ \<Rightarrow> rs), w2)"
    by (simp add: h t)
  have m1: "peer_created n nc ncs q e1 \<Longrightarrow> peer_created n nc ncs q (e1 @ e2)" for q
    by (rule peer_created_mono) auto
  have m2: "peer_created n nc ncs q e2 \<Longrightarrow> peer_created n nc ncs q (e1 @ e2)" for q
    by (rule peer_created_mono) auto
  show ?case
    unfolding res using e1 e2
    by (intro exI [of _ "e1 @ e2"]) (cases r; auto intro: m1 m2)
qed


lemma created_tx:
  "transaction (networkCreated r) w =
     (case r of
        None \<Rightarrow>
          (Inr (), w\<lparr>w_trace := w_trace w @ [Ok TxBegin, Ok NetworkCreated, Ok TxCommit],
                      w_cat := (w_cat w)\<lparr>cat_status := NetworkStatusCreated\<rparr>\<rparr>)
      | Some e \<Rightarrow>
          (Inl e, w\<lparr>w_trace := w_trace w @ [Ok TxBegin, Failed NetworkCreated, Ok TxRollback]\<rparr>))"
  by (cases r) (simp_all add: transaction_def networkCreated_def log_def)

lemma before_no: "\<forall>x \<in> set evs. call_of x \<noteq> c \<Longrightarrow> before c (evs @ rest) = evs @ before c rest"
  by (simp add: before_def)

lemma after_no: "\<forall>x \<in> set evs. call_of x \<noteq> c \<Longrightarrow> after c (evs @ rest) = after c rest"
  by (simp add: after_def dropWhile_append2)

lemma local_not_created: "local_call x \<Longrightarrow> call_of x \<noteq> NetworkCreated"
  by (simp add: local_call_def)

lemma peer_not_created: "peer_call x \<Longrightarrow> call_of x \<noteq> NetworkCreated"
  by (auto simp: peer_call_def)

lemma local_not_write: "local_call x \<Longrightarrow> \<not> is_globalConfigWrite (call_of x)"
  by (simp add: local_call_def)

lemma peer_not_write: "peer_call x \<Longrightarrow> \<not> is_globalConfigWrite (call_of x)"
  by (cases "call_of x") (auto simp: peer_call_def)

lemma filter_local: "\<forall>x \<in> set evs. local_call x \<Longrightarrow> filter (\<lambda>x. is_peerCreate (call_of x)) evs = []"
  by (induction evs) (auto simp: local_call_def)

lemma actuate_shape:
  assumes run: "networksPostCluster_actuate nsk env req ct ncs w = (res, w')"
  shows "\<exists>evs. w_trace w' = w_trace w @ evs
      \<and> ((\<exists>e \<in> set evs. call_of e = NetworkCreated) \<longrightarrow>
            actuate_ok nsk env ct (w_cat w) ncs evs)
      \<and> (res \<noteq> Inr () \<longrightarrow> cat_status (w_cat w') = cat_status (w_cat w))
      \<and> ((\<exists>e \<in> set evs. \<not> is_ok e) \<longrightarrow> res \<noteq> Inr ())
      \<and> (\<forall>x \<in> set evs. \<not> is_globalConfigWrite (call_of x))
      \<and> cat_config (w_cat w') = cat_config (w_cat w)
      \<and> (res = Inr () \<longrightarrow>
            Ok NetworkCreated \<in> set evs \<and> cat_status (w_cat w') = NetworkStatusCreated)"
proof (cases "ce_newNotifier env")
  case (Inl e)
  with run have "res = Inl e" "w' = log (Failed NewNotifier) w"
    by (simp_all add: networksPostCluster_actuate_def)
  then show ?thesis by (intro exI [of _ "[Failed NewNotifier]"]) simp
next
  case peers: (Inr peers)
  show ?thesis
  proof (cases "ce_loadByName env (w_cat w)")
    case (Inl e)
    with run peers have "res = Inl (Wrap ''Failed loading network'' e)"
      "w' = log (Failed (LoadByName (req_name req))) (log (Ok NewNotifier) w)"
      by (simp_all add: networksPostCluster_actuate_def)
    then show ?thesis
      by (intro exI [of _ "[Ok NewNotifier, Failed (LoadByName (req_name req))]"]) simp
  next
    case n: (Inr n)
    define w2 where "w2 = log (Ok (LoadByName (req_name req))) (log (Ok NewNotifier) w)"
    define pre where "pre = [Ok NewNotifier, Ok (LoadByName (req_name req))]"
    have w2: "w_trace w2 = w_trace w @ pre" "w_cat w2 = w_cat w"
      by (simp_all add: w2_def pre_def)
    have pre_props: "\<forall>x \<in> set pre. is_ok x \<and> call_of x \<noteq> NetworkCreated
          \<and> \<not> is_actuation (call_of x) \<and> \<not> is_peerCreate (call_of x)
          \<and> \<not> is_globalConfigWrite (call_of x)"
      by (simp add: pre_def)
    obtain r3 w3 where d: "doNetworksCreate (ce_networkNodeCreated env) n ct w2 = (r3, w3)"
      by (cases "doNetworksCreate (ce_networkNodeCreated env) n ct w2")
    from doNetworksCreate_shape [of "ce_networkNodeCreated env" n ct w2] d obtain devs where
      devs: "w_trace w3 = w_trace w2 @ devs" "\<forall>x \<in> set devs. local_call x"
        "r3 = Inr () \<longrightarrow> (\<forall>x \<in> set devs. is_ok x)
             \<and> Ok (DriverValidate (validateConfig n ct)) \<in> set devs"
        "r3 \<noteq> Inr () \<longrightarrow> (\<exists>x \<in> set devs. \<not> is_ok x)"
        "cat_status (w_cat w3) = cat_status (w_cat w2)"
        "cat_config (w_cat w3) = cat_config (w_cat w2)"
      by auto
    show ?thesis
    proof (cases r3)
      case (Inl e)
      with run peers n d have "res = Inl e" "w' = w3"
        by (simp_all add: networksPostCluster_actuate_def w2_def)
      with devs w2 pre_props show ?thesis
        by (intro exI [of _ "pre @ devs"]) (auto dest: local_not_created local_not_write)
    next
      case r3: (Inr u)
      define hook where
        "hook = notifyCreate n (stripNodeSpecificNetworkConfig nsk (n_config n)) ncs"
      obtain r4 w4 where f: "notifier hook peers w3 = (r4, w4)"
        by (cases "notifier hook peers w3")
      from notifier_shape [of n "stripNodeSpecificNetworkConfig nsk (n_config n)" ncs peers w3] f
      obtain pevs where
        pevs: "w_trace w4 = w_trace w3 @ pevs" "\<forall>x \<in> set pevs. peer_call x"
          "r4 = Inr () \<longrightarrow> (\<forall>x \<in> set pevs. is_ok x)
             \<and> length (filter (\<lambda>x. is_peerCreate (call_of x)) pevs) = length peers
             \<and> (\<forall>q \<in> set peers.
                   peer_created n (stripNodeSpecificNetworkConfig nsk (n_config n)) ncs q pevs)"
          "r4 \<noteq> Inr () \<longrightarrow> (\<exists>x \<in> set pevs. \<not> is_ok x)"
          "w_cat w4 = w_cat w3"
        by (auto simp: hook_def)
      show ?thesis
      proof (cases r4)
        case (Inl e)
        with run peers n d r3 f have "res = Inl e" "w' = w4"
          by (simp_all add: networksPostCluster_actuate_def w2_def hook_def)
        with devs pevs w2 pre_props show ?thesis
          by (intro exI [of _ "pre @ devs @ pevs"])
             (auto dest: local_not_created peer_not_created local_not_write peer_not_write)
      next
        case r4: (Inr u')
        have fin: "(res, w') = transaction (networkCreated (ce_networkCreated env)) w4"
          using run peers n d r3 f r4
          by (simp add: networksPostCluster_actuate_def w2_def hook_def)
        have nocr: "\<forall>x \<in> set (pre @ devs @ pevs). call_of x \<noteq> NetworkCreated"
          using devs pevs pre_props by (auto dest: local_not_created peer_not_created)
        have allok: "\<forall>x \<in> set (pre @ devs @ pevs). is_ok x"
          using devs pevs pre_props r3 r4 by auto
        have cnt: "length (filter (\<lambda>x. is_peerCreate (call_of x)) (pre @ devs @ pevs)) = length peers"
          using devs pevs pre_props r3 r4 by (simp add: filter_local pre_def)
        have "local_actuated env n ct devs"
          using doNetworksCreate_success [of env n ct w2 devs] d r3 devs(1) by simp
        then have loc: "local_actuated env n ct ((pre @ devs @ pevs) @ [Ok TxBegin])"
          by (rule local_actuated_mono) auto
        have prs: "\<forall>q \<in> set peers.
            peer_created n (stripNodeSpecificNetworkConfig nsk (n_config n)) ncs q
              ((pre @ devs @ pevs) @ [Ok TxBegin])"
        proof
          fix q assume "q \<in> set peers"
          with pevs(3) r4
          have "peer_created n (stripNodeSpecificNetworkConfig nsk (n_config n)) ncs q pevs"
            by simp
          then show "peer_created n (stripNodeSpecificNetworkConfig nsk (n_config n)) ncs q
              ((pre @ devs @ pevs) @ [Ok TxBegin])"
            by (rule peer_created_mono) auto
        qed
        have nowr: "\<forall>x \<in> set (pre @ devs @ pevs). \<not> is_globalConfigWrite (call_of x)"
          using devs pevs pre_props by (auto dest: local_not_write peer_not_write)
        show ?thesis
        proof (cases "ce_networkCreated env")
          case None
          with fin have res: "res = Inr ()"
            "w_trace w' = w_trace w4 @ [Ok TxBegin, Ok NetworkCreated, Ok TxCommit]"
            by (simp_all add: created_tx)
          define evs where "evs = (pre @ devs @ pevs) @ [Ok TxBegin, Ok NetworkCreated, Ok TxCommit]"
          have tr: "w_trace w' = w_trace w @ evs"
            using res devs pevs w2 by (simp add: evs_def)
          have bef: "before NetworkCreated evs = (pre @ devs @ pevs) @ [Ok TxBegin]"
            unfolding evs_def using nocr by (subst before_no) (simp_all add: before_def)
          have aft: "after NetworkCreated evs = [Ok TxCommit]"
            unfolding evs_def using nocr by (subst after_no) (simp_all add: after_def)
          have cnt': "length (filter (\<lambda>x. is_peerCreate (call_of x))
                ((pre @ devs @ pevs) @ [Ok TxBegin])) = length peers"
            using cnt by simp
          have allok': "\<forall>x \<in> set ((pre @ devs @ pevs) @ [Ok TxBegin]). is_ok x"
            using allok by simp
          have "actuate_ok nsk env ct (w_cat w) ncs evs"
            unfolding actuate_ok_def bef aft using allok' cnt' loc prs peers n by simp
          moreover have "\<not> (\<exists>e \<in> set evs. \<not> is_ok e)"
            using allok by (auto simp: evs_def)
          moreover have "\<forall>x \<in> set evs. \<not> is_globalConfigWrite (call_of x)"
            using nowr by (auto simp: evs_def)
          moreover have "cat_config (w_cat w') = cat_config (w_cat w)"
            using fin None pevs devs w2 by (simp add: created_tx)
          moreover have "Ok NetworkCreated \<in> set evs" by (simp add: evs_def)
          moreover have "cat_status (w_cat w') = NetworkStatusCreated"
            using fin None by (simp add: created_tx)
          ultimately show ?thesis using tr res by (intro exI [of _ evs]) simp
        next
          case (Some e)
          with fin have res: "res = Inl e"
            "w_trace w' = w_trace w4 @ [Ok TxBegin, Failed NetworkCreated, Ok TxRollback]"
            "w_cat w' = w_cat w4"
            by (simp_all add: created_tx)
          define evs where "evs = (pre @ devs @ pevs) @ [Ok TxBegin, Failed NetworkCreated, Ok TxRollback]"
          have tr: "w_trace w' = w_trace w @ evs"
            using res devs pevs w2 by (simp add: evs_def)
          have bef: "before NetworkCreated evs = (pre @ devs @ pevs) @ [Ok TxBegin]"
            unfolding evs_def using nocr by (subst before_no) (simp_all add: before_def)
          have aft: "after NetworkCreated evs = [Ok TxRollback]"
            unfolding evs_def using nocr by (subst after_no) (simp_all add: after_def)
          have cnt': "length (filter (\<lambda>x. is_peerCreate (call_of x))
                ((pre @ devs @ pevs) @ [Ok TxBegin])) = length peers"
            using cnt by simp
          have allok': "\<forall>x \<in> set ((pre @ devs @ pevs) @ [Ok TxBegin]). is_ok x"
            using allok by simp
          have "actuate_ok nsk env ct (w_cat w) ncs evs"
            unfolding actuate_ok_def bef aft using allok' cnt' loc prs peers n by simp
          moreover have "cat_status (w_cat w') = cat_status (w_cat w)"
            using res pevs devs w2 by simp
          moreover have "cat_config (w_cat w') = cat_config (w_cat w)"
            using res pevs devs w2 by simp
          moreover have "\<forall>x \<in> set evs. \<not> is_globalConfigWrite (call_of x)"
            using nowr by (auto simp: evs_def)
          ultimately show ?thesis using tr res by (intro exI [of _ evs]) simp
        qed
      qed
    qed
  qed
qed

section \<open>Two-phase create: the order of the catalog writes\<close>

lemmas create_defs =
  networksPostCluster_def transaction_def networksPostCluster_tx_def
  createNetworkConfig_def networkErrored_def networkCreated_def networkNodeCreated_def
  networksPostCluster_actuate_def doNetworksCreate_def revertCreate_def
  notifyCreate_def validateConfig_def stripNodeSpecificNetworkConfig_def log_def
  networkPartiallyCreated_def

lemmas example_defs =
  exampleRequest_def exampleNsk_def exampleClusterEnv_def examplePeer_def exampleWorld_def
  exampleNetwork_def exampleCatalog_def

lemma commit_prefix_props:
  "\<forall>x \<in> set (commit_prefix c). is_ok x \<and> call_of x \<noteq> NetworkCreated
      \<and> \<not> is_actuation (call_of x) \<and> \<not> is_peerCreate (call_of x)"
  by (simp add: commit_prefix_def)

lemma actuate_ok_prefix:
  assumes "actuate_ok nsk env ct cat ncs evs"
  shows "actuate_ok nsk env ct cat ncs (commit_prefix c @ evs)"
proof -
  have no: "\<forall>x \<in> set (commit_prefix c). call_of x \<noteq> NetworkCreated"
    using commit_prefix_props by blast
  have f: "filter (\<lambda>x. is_peerCreate (call_of x)) (commit_prefix c) = []"
    by (simp add: commit_prefix_def)
  define b where "b = before NetworkCreated evs"
  from assms obtain peers n where
    a: "\<forall>x \<in> set b. is_ok x" "ce_newNotifier env = Inr peers" "ce_loadByName env cat = Inr n"
       "local_actuated env n ct b"
       "\<forall>p \<in> set peers. peer_created n (stripNodeSpecificNetworkConfig nsk (n_config n)) ncs p b"
       "length (filter (\<lambda>x. is_peerCreate (call_of x)) b) = length peers"
       "\<forall>x \<in> set (after NetworkCreated evs). \<not> is_actuation (call_of x)"
    unfolding actuate_ok_def b_def by blast
  have 1: "\<forall>x \<in> set (commit_prefix c @ b). is_ok x"
    using a(1) commit_prefix_props [of c] by auto
  have 2: "local_actuated env n ct (commit_prefix c @ b)"
    using a(4) by (rule local_actuated_mono) auto
  have 3: "\<forall>p \<in> set peers.
      peer_created n (stripNodeSpecificNetworkConfig nsk (n_config n)) ncs p (commit_prefix c @ b)"
  proof
    fix p assume "p \<in> set peers"
    with a(5) have "peer_created n (stripNodeSpecificNetworkConfig nsk (n_config n)) ncs p b"
      by simp
    then show "peer_created n (stripNodeSpecificNetworkConfig nsk (n_config n)) ncs p
        (commit_prefix c @ b)"
      by (rule peer_created_mono) auto
  qed
  have 4: "length (filter (\<lambda>x. is_peerCreate (call_of x)) (commit_prefix c @ b)) = length peers"
    using a(6) by (simp add: f)
  show ?thesis
    unfolding actuate_ok_def before_no [OF no] after_no [OF no] b_def [symmetric]
    using 1 2 3 4 a(2,3,7) by blast
qed

text \<open>
  C1. A cluster create on the fresh path (the request passes the checks of
  \<open>networksPostCluster\<close> and the record is not partially created) writes the catalog in
  this order. If any driver or peer call is made at all, the trace starts with
  \<open>commit_prefix c\<close>: the insert of the global config \<open>c\<close> (the request's config as
  \<open>FillConfig\<close> returns it) and the errored marker, committed in one transaction, ahead of
  every actuation, and the catalog holds that config at the end. If \<open>NetworkCreated\<close> is
  written, every event ahead of it succeeded; the network loaded from the committed
  catalog was actuated on this member ahead of it (the driver's \<open>Validate\<close>, and unless
  the local status was already created its \<open>Create\<close>, its \<open>Start\<close> unless the client is a
  joiner, and \<open>NetworkNodeCreated\<close>, each of them called and successful); every peer of the
  notifier accepted ahead of it the \<open>CreateNetwork\<close> made for it, with one such call per
  peer; and no actuation follows it. If any call fails, the create returns an error; and
  a create that made a driver or peer call and returns an error leaves the record
  errored. A create that succeeds has written \<open>NetworkCreated\<close> and leaves the record
  created; and every run on this path opens the first transaction, so none of this holds
  of an empty trace.
\<close>

theorem networksPostCluster_fresh_order:
  assumes fresh: "fresh_create nsk netInfo req"
    and run: "networksPostCluster nsk env netInfo req ct w = (res, w')"
  shows "\<exists>evs. w_trace w' = w_trace w @ evs
      \<and> ((\<exists>e \<in> set evs. is_actuation (call_of e)) \<longrightarrow>
            (\<exists>c rest. ce_fillConfig env (req_config req) = Inr c \<and> evs = commit_prefix c @ rest
               \<and> cat_config (w_cat w') = cat_config (w_cat w) ++ c))
      \<and> ((\<exists>e \<in> set evs. call_of e = NetworkCreated) \<longrightarrow>
            (\<exists>c ncs. ce_fillConfig env (req_config req) = Inr c
               \<and> ce_networkNodeConfigs env = Inr ncs
               \<and> actuate_ok nsk env ct
                    ((w_cat w)\<lparr>cat_config := cat_config (w_cat w) ++ c,
                                cat_status := NetworkStatusErrored\<rparr>) ncs evs))
      \<and> ((\<exists>e \<in> set evs. \<not> is_ok e) \<longrightarrow> res \<noteq> Inr ())
      \<and> ((\<exists>e \<in> set evs. is_actuation (call_of e)) \<and> res \<noteq> Inr () \<longrightarrow>
            cat_status (w_cat w') = NetworkStatusErrored)
      \<and> (res = Inr () \<longrightarrow>
            Ok NetworkCreated \<in> set evs \<and> cat_status (w_cat w') = NetworkStatusCreated)
      \<and> (\<exists>more. evs = Ok TxBegin # more)"
proof -
  define T where "T = transaction (networksPostCluster_tx nsk env netInfo req) w"
  have notpart: "\<not> (case netInfo of None \<Rightarrow> False | Some ni \<Rightarrow> networkPartiallyCreated nsk ni)"
    using fresh by (auto simp: fresh_create_def split: option.splits)
  have pre: "\<not> (\<exists>key \<in> dom (req_config req). nsk key)"
    "\<not> (case netInfo of None \<Rightarrow> False | Some ni \<Rightarrow> ni_status ni = NetworkStatusCreated)"
    "\<not> (case netInfo of None \<Rightarrow> False | Some ni \<Rightarrow> req_type req \<noteq> ni_type ni)"
    using fresh by (auto simp: fresh_create_def split: option.splits)
  have unfold: "networksPostCluster nsk env netInfo req ct w =
      (case T of
         (Inl e, w1) \<Rightarrow>
           (if isNotFoundError e
            then (Inl (Error ''Network not pending on any node (use --target <node> first)''), w1)
            else (Inl e, w1))
       | (Inr (nodeConfigs, c), w1) \<Rightarrow>
           networksPostCluster_actuate nsk env (req\<lparr>req_config := c\<rparr>) ct nodeConfigs w1)"
    using pre by (simp add: networksPostCluster_def T_def)
  from tx_fresh [OF notpart, of env req w] consider
    (failed) e evs where "fst T = Inl e" "w_trace (snd T) = w_trace w @ evs"
       "w_cat (snd T) = w_cat w" "\<forall>x \<in> set evs. tx_only x" "\<exists>more. evs = Ok TxBegin # more"
  | (committed) ncs c where "ce_fillConfig env (req_config req) = Inr c" "fst T = Inr (ncs, c)"
       "w_trace (snd T) = w_trace w @ commit_prefix c"
       "w_cat (snd T) = (w_cat w)\<lparr>cat_config := cat_config (w_cat w) ++ c,
                              cat_status := NetworkStatusErrored\<rparr>"
       "ce_networkNodeConfigs env = Inr ncs"
    unfolding T_def by blast
  then show ?thesis
  proof cases
    case failed
    obtain w1 where T: "T = (Inl e, w1)" using failed(1) by (cases T) auto
    with run unfold have "w' = w1" "res \<noteq> Inr ()" by (auto split: if_splits)
    with failed T have "w_trace w' = w_trace w @ evs" "res \<noteq> Inr ()" by simp_all
    with failed(4,5) show ?thesis
      by (intro exI [of _ evs]) (auto simp: tx_only_def)
  next
    case committed
    obtain w1 where T: "T = (Inr (ncs, c), w1)" using committed(2) by (cases T) auto
    with run unfold have act:
      "networksPostCluster_actuate nsk env (req\<lparr>req_config := c\<rparr>) ct ncs w1 = (res, w')"
      by simp
    from actuate_shape [OF act] obtain rest where
      rest: "w_trace w' = w_trace w1 @ rest"
        "(\<exists>e \<in> set rest. call_of e = NetworkCreated) \<longrightarrow>
           actuate_ok nsk env ct (w_cat w1) ncs rest"
        "res \<noteq> Inr () \<longrightarrow> cat_status (w_cat w') = cat_status (w_cat w1)"
        "(\<exists>e \<in> set rest. \<not> is_ok e) \<longrightarrow> res \<noteq> Inr ()"
        "cat_config (w_cat w') = cat_config (w_cat w1)"
        "res = Inr () \<longrightarrow>
           Ok NetworkCreated \<in> set rest \<and> cat_status (w_cat w') = NetworkStatusCreated"
      by blast
    have w1: "w_trace w1 = w_trace w @ commit_prefix c" "cat_status (w_cat w1) = NetworkStatusErrored"
      "cat_config (w_cat w1) = cat_config (w_cat w) ++ c"
      "w_cat w1 = (w_cat w)\<lparr>cat_config := cat_config (w_cat w) ++ c,
                             cat_status := NetworkStatusErrored\<rparr>"
      using committed T by simp_all
    have tr: "w_trace w' = w_trace w @ (commit_prefix c @ rest)"
      using rest(1) w1 by simp
    have one: "\<exists>c' rest'. ce_fillConfig env (req_config req) = Inr c'
        \<and> commit_prefix c @ rest = commit_prefix c' @ rest'
        \<and> cat_config (w_cat w') = cat_config (w_cat w) ++ c'"
      using committed(1) rest(5) w1(3) by auto
    have two: "(\<exists>e \<in> set (commit_prefix c @ rest). call_of e = NetworkCreated)
        \<longrightarrow> (\<exists>c' ncs'. ce_fillConfig env (req_config req) = Inr c'
               \<and> ce_networkNodeConfigs env = Inr ncs'
               \<and> actuate_ok nsk env ct
                    ((w_cat w)\<lparr>cat_config := cat_config (w_cat w) ++ c',
                                cat_status := NetworkStatusErrored\<rparr>) ncs'
                    (commit_prefix c @ rest))"
    proof
      assume "\<exists>e \<in> set (commit_prefix c @ rest). call_of e = NetworkCreated"
      with commit_prefix_props [of c] have "\<exists>e \<in> set rest. call_of e = NetworkCreated"
        by auto
      with rest(2) have "actuate_ok nsk env ct (w_cat w1) ncs rest" by simp
      then have "actuate_ok nsk env ct (w_cat w1) ncs (commit_prefix c @ rest)"
        by (rule actuate_ok_prefix)
      with committed(1,5) w1(4) show "\<exists>c' ncs'. ce_fillConfig env (req_config req) = Inr c'
               \<and> ce_networkNodeConfigs env = Inr ncs'
               \<and> actuate_ok nsk env ct
                    ((w_cat w)\<lparr>cat_config := cat_config (w_cat w) ++ c',
                                cat_status := NetworkStatusErrored\<rparr>) ncs'
                    (commit_prefix c @ rest)"
        by auto
    qed
    have three: "(\<exists>e \<in> set (commit_prefix c @ rest). \<not> is_ok e) \<longrightarrow> res \<noteq> Inr ()"
      using rest(4) commit_prefix_props [of c] by auto
    have four: "res \<noteq> Inr () \<longrightarrow> cat_status (w_cat w') = NetworkStatusErrored"
      using rest(3) w1(2) by simp
    have five: "res = Inr () \<longrightarrow>
        Ok NetworkCreated \<in> set (commit_prefix c @ rest)
        \<and> cat_status (w_cat w') = NetworkStatusCreated"
      using rest(6) by simp
    have six: "\<exists>more. commit_prefix c @ rest = Ok TxBegin # more"
      by (simp add: commit_prefix_def)
    from tr one two three four five six show ?thesis by blast
  qed
qed


theorem networksPostCluster_fresh_order_witness:
  "fresh_create exampleNsk None (exampleRequest [''mtu'' \<mapsto> ''9000''])
   \<and> fst (networksPostCluster exampleNsk
            (exampleClusterEnv [examplePeer ''b'' (Some (Error ''boom''))])
            None (exampleRequest [''mtu'' \<mapsto> ''9000'']) ClientTypeNormal exampleWorld)
       = Inl (Error ''boom'')
   \<and> cat_status (w_cat (snd (networksPostCluster exampleNsk
            (exampleClusterEnv [examplePeer ''b'' (Some (Error ''boom''))])
            None (exampleRequest [''mtu'' \<mapsto> ''9000'']) ClientTypeNormal exampleWorld)))
       = NetworkStatusErrored
   \<and> w_trace (snd (networksPostCluster exampleNsk
            (exampleClusterEnv [examplePeer ''b'' (Some (Error ''boom''))])
            None (exampleRequest [''mtu'' \<mapsto> ''9000'']) ClientTypeNormal exampleWorld))
       = commit_prefix [''mtu'' \<mapsto> ''9000''] @
         [Ok NewNotifier, Ok (LoadByName ''n1''),
          Ok (DriverValidate [''mtu'' \<mapsto> ''9000'', ''parent'' \<mapsto> ''eth0'']),
          Ok (DriverCreate ClientTypeNormal), Ok DriverStart,
          Ok TxBegin, Ok NetworkNodeCreated, Ok TxCommit,
          Ok PeerGetServer,
          Failed (PeerCreateNetwork ''b'' [''mtu'' \<mapsto> ''9000'', ''parent'' \<mapsto> ''eth1''])]
   \<and> networksPostCluster exampleNsk (exampleClusterEnv [examplePeer ''b'' None])
            None (exampleRequest [''mtu'' \<mapsto> ''9000'']) ClientTypeNormal exampleWorld
       = (Inr (),
          \<lparr>w_trace = commit_prefix [''mtu'' \<mapsto> ''9000''] @
             [Ok NewNotifier, Ok (LoadByName ''n1''),
              Ok (DriverValidate [''mtu'' \<mapsto> ''9000'', ''parent'' \<mapsto> ''eth0'']),
              Ok (DriverCreate ClientTypeNormal), Ok DriverStart,
              Ok TxBegin, Ok NetworkNodeCreated, Ok TxCommit,
              Ok PeerGetServer,
              Ok (PeerCreateNetwork ''b'' [''mtu'' \<mapsto> ''9000'', ''parent'' \<mapsto> ''eth1'']),
              Ok TxBegin, Ok NetworkCreated, Ok TxCommit],
            w_cat = \<lparr>cat_exists = True, cat_status = NetworkStatusCreated,
              cat_config = [''mtu'' \<mapsto> ''9000''],
              cat_localStatus = NetworkStatusCreated\<rparr>\<rparr>)"
proof -
  have fresh: "fresh_create exampleNsk None (exampleRequest [''mtu'' \<mapsto> ''9000''])"
    by (simp add: fresh_create_def exampleRequest_def exampleNsk_def)
  have failing: "networksPostCluster exampleNsk
        (exampleClusterEnv [examplePeer ''b'' (Some (Error ''boom''))])
        None (exampleRequest [''mtu'' \<mapsto> ''9000'']) ClientTypeNormal exampleWorld =
     (Inl (Error ''boom''),
      \<lparr>w_trace = commit_prefix [''mtu'' \<mapsto> ''9000''] @
         [Ok NewNotifier, Ok (LoadByName ''n1''),
          Ok (DriverValidate [''mtu'' \<mapsto> ''9000'', ''parent'' \<mapsto> ''eth0'']),
          Ok (DriverCreate ClientTypeNormal), Ok DriverStart,
          Ok TxBegin, Ok NetworkNodeCreated, Ok TxCommit,
          Ok PeerGetServer,
          Failed (PeerCreateNetwork ''b'' [''mtu'' \<mapsto> ''9000'', ''parent'' \<mapsto> ''eth1''])],
       w_cat = \<lparr>cat_exists = True, cat_status = NetworkStatusErrored,
         cat_config = [''mtu'' \<mapsto> ''9000''], cat_localStatus = NetworkStatusCreated\<rparr>\<rparr>)"
    by (simp add: create_defs example_defs commit_prefix_def fun_eq_iff)
  have passing: "networksPostCluster exampleNsk (exampleClusterEnv [examplePeer ''b'' None])
        None (exampleRequest [''mtu'' \<mapsto> ''9000'']) ClientTypeNormal exampleWorld =
     (Inr (),
      \<lparr>w_trace = commit_prefix [''mtu'' \<mapsto> ''9000''] @
         [Ok NewNotifier, Ok (LoadByName ''n1''),
          Ok (DriverValidate [''mtu'' \<mapsto> ''9000'', ''parent'' \<mapsto> ''eth0'']),
          Ok (DriverCreate ClientTypeNormal), Ok DriverStart,
          Ok TxBegin, Ok NetworkNodeCreated, Ok TxCommit,
          Ok PeerGetServer,
          Ok (PeerCreateNetwork ''b'' [''mtu'' \<mapsto> ''9000'', ''parent'' \<mapsto> ''eth1'']),
          Ok TxBegin, Ok NetworkCreated, Ok TxCommit],
       w_cat = \<lparr>cat_exists = True, cat_status = NetworkStatusCreated,
         cat_config = [''mtu'' \<mapsto> ''9000''], cat_localStatus = NetworkStatusCreated\<rparr>\<rparr>)"
    by (simp add: create_defs example_defs commit_prefix_def fun_eq_iff)
  from networksPostCluster_fresh_order [OF fresh failing]
    networksPostCluster_fresh_order [OF fresh passing]
  show ?thesis
    using fresh failing passing by simp
qed

section \<open>Two-phase create: re-running a partially created network\<close>

lemma tx_partial:
  assumes "networkPartiallyCreated nsk ni"
  shows "transaction (networksPostCluster_tx nsk env (Some ni) req) w =
     (if req_config req \<noteq> Map.empty
      then (Inl (Error ''Network already partially created. Please do not specify any global config when re-running create''),
            w\<lparr>w_trace := w_trace w @ [Ok TxBegin, Ok TxRollback]\<rparr>)
      else (Inr (Map.empty, req_config req), log (Ok TxCommit) (log (Ok TxBegin) w)))"
  using assms by (simp add: transaction_def networksPostCluster_tx_def log_def)

text \<open>
  C2. Let the existing record be partially created (its global status is errored, or it
  holds a config key that is not node-specific). A request with a non-empty config
  fails with an error; it makes no driver or peer call, neither \<open>FillConfig\<close> nor
  \<open>CreateNetworkConfig\<close>, and leaves the catalog as it was. A request with an empty
  config never calls \<open>FillConfig\<close> or \<open>CreateNetworkConfig\<close> and leaves the global
  config as it was; when it passes the two checks ahead of the transaction (lines
  657-667: the record is not already created and its type is the requested one), the
  transaction commits empty and the request goes on to the actuation of lines 717-788.
\<close>

theorem networksPostCluster_partially_created:
  assumes part: "networkPartiallyCreated nsk ni"
  shows "(req_config req \<noteq> Map.empty \<longrightarrow>
            (\<exists>e. fst (networksPostCluster nsk env (Some ni) req ct w) = Inl e)
            \<and> w_cat (snd (networksPostCluster nsk env (Some ni) req ct w)) = w_cat w
            \<and> (\<exists>evs. w_trace (snd (networksPostCluster nsk env (Some ni) req ct w)) = w_trace w @ evs
                  \<and> (\<forall>x \<in> set evs. \<not> is_globalConfigWrite (call_of x) \<and> \<not> is_actuation (call_of x))))
       \<and> (req_config req = Map.empty \<longrightarrow>
            cat_config (w_cat (snd (networksPostCluster nsk env (Some ni) req ct w)))
              = cat_config (w_cat w)
            \<and> (\<exists>evs. w_trace (snd (networksPostCluster nsk env (Some ni) req ct w)) = w_trace w @ evs
                  \<and> (\<forall>x \<in> set evs. \<not> is_globalConfigWrite (call_of x)))
            \<and> (ni_status ni \<noteq> NetworkStatusCreated \<and> req_type req = ni_type ni \<longrightarrow>
                  networksPostCluster nsk env (Some ni) req ct w
                    = networksPostCluster_actuate nsk env req ct Map.empty
                        (log (Ok TxCommit) (log (Ok TxBegin) w))))"
proof (intro conjI impI)
  assume ne: "req_config req \<noteq> Map.empty"
  have R: "networksPostCluster nsk env (Some ni) req ct w = (Inl (Error ''Config key is cluster member specific''), w)
     \<or> networksPostCluster nsk env (Some ni) req ct w = (Inl (Error ''The network is already created''), w)
     \<or> networksPostCluster nsk env (Some ni) req ct w = (Inl (Error ''Requested network type does not match type in existing database record''), w)
     \<or> networksPostCluster nsk env (Some ni) req ct w =
         (Inl (Error ''Network already partially created. Please do not specify any global config when re-running create''),
            w\<lparr>w_trace := w_trace w @ [Ok TxBegin, Ok TxRollback]\<rparr>)"
    using ne by (simp add: networksPostCluster_def tx_partial [OF part])
  from R show "\<exists>e. fst (networksPostCluster nsk env (Some ni) req ct w) = Inl e" by auto
  from R show "w_cat (snd (networksPostCluster nsk env (Some ni) req ct w)) = w_cat w" by auto
  from R show "\<exists>evs. w_trace (snd (networksPostCluster nsk env (Some ni) req ct w)) = w_trace w @ evs
                  \<and> (\<forall>x \<in> set evs. \<not> is_globalConfigWrite (call_of x) \<and> \<not> is_actuation (call_of x))"
    by (elim disjE) simp_all
next
  assume e: "req_config req = Map.empty"
  have pre: "\<not> (\<exists>key \<in> dom (req_config req). nsk key)" using e by simp
  have req: "req\<lparr>req_config := Map.empty\<rparr> = req" using e by simp
  define A where "A = networksPostCluster_actuate nsk env req ct Map.empty
                        (log (Ok TxCommit) (log (Ok TxBegin) w))"
  have R: "networksPostCluster nsk env (Some ni) req ct w = (Inl (Error ''The network is already created''), w)
     \<or> networksPostCluster nsk env (Some ni) req ct w = (Inl (Error ''Requested network type does not match type in existing database record''), w)
     \<or> networksPostCluster nsk env (Some ni) req ct w = A"
    using e by (simp add: networksPostCluster_def tx_partial [OF part] A_def req)
  obtain res w' where A: "A = (res, w')" by (cases A)
  from actuate_shape [OF A [unfolded A_def]] obtain evs where
    evs: "w_trace w' = w_trace w @ [Ok TxBegin, Ok TxCommit] @ evs"
      "\<forall>x \<in> set evs. \<not> is_globalConfigWrite (call_of x)"
      "cat_config (w_cat w') = cat_config (w_cat w)"
    by auto
  from R A evs show "cat_config (w_cat (snd (networksPostCluster nsk env (Some ni) req ct w)))
              = cat_config (w_cat w)"
    by auto
  from R show "\<exists>evs. w_trace (snd (networksPostCluster nsk env (Some ni) req ct w)) = w_trace w @ evs
                  \<and> (\<forall>x \<in> set evs. \<not> is_globalConfigWrite (call_of x))"
  proof (elim disjE)
    assume "networksPostCluster nsk env (Some ni) req ct w = A"
    with A evs show ?thesis
      by (intro exI [of _ "[Ok TxBegin, Ok TxCommit] @ evs"]) simp
  qed simp_all
  show "networksPostCluster nsk env (Some ni) req ct w
          = networksPostCluster_actuate nsk env req ct Map.empty
              (log (Ok TxCommit) (log (Ok TxBegin) w))"
    if "ni_status ni \<noteq> NetworkStatusCreated \<and> req_type req = ni_type ni"
    using that e by (simp add: networksPostCluster_def tx_partial [OF part] req)
qed


theorem networksPostCluster_partially_created_witness:
  "networkPartiallyCreated exampleNsk examplePartial
   \<and> networksPostCluster exampleNsk (exampleClusterEnv [examplePeer ''b'' None])
        (Some examplePartial) (exampleRequest [''mtu'' \<mapsto> ''1500'']) ClientTypeNormal
        examplePartialWorld
       = (Inl (Error ''Network already partially created. Please do not specify any global config when re-running create''),
          examplePartialWorld\<lparr>w_trace := [Ok TxBegin, Ok TxRollback]\<rparr>)
   \<and> networksPostCluster exampleNsk (exampleClusterEnv [examplePeer ''b'' None])
        (Some examplePartial) (exampleRequest Map.empty) ClientTypeNormal examplePartialWorld
       = (Inr (),
          \<lparr>w_trace =
             [Ok TxBegin, Ok TxCommit, Ok NewNotifier, Ok (LoadByName ''n1''),
              Ok (DriverValidate [''mtu'' \<mapsto> ''9000'', ''parent'' \<mapsto> ''eth0'']),
              Ok (DriverCreate ClientTypeNormal), Ok DriverStart,
              Ok TxBegin, Ok NetworkNodeCreated, Ok TxCommit,
              Ok PeerGetServer, Ok (PeerCreateNetwork ''b'' [''mtu'' \<mapsto> ''9000'']),
              Ok TxBegin, Ok NetworkCreated, Ok TxCommit],
            w_cat = \<lparr>cat_exists = True, cat_status = NetworkStatusCreated,
              cat_config = [''mtu'' \<mapsto> ''9000''],
              cat_localStatus = NetworkStatusCreated\<rparr>\<rparr>)"
proof -
  have part: "networkPartiallyCreated exampleNsk examplePartial"
    by (simp add: networkPartiallyCreated_def examplePartial_def)
  from networksPostCluster_partially_created
    [OF part, of "exampleRequest [''mtu'' \<mapsto> ''1500'']"
       "exampleClusterEnv [examplePeer ''b'' None]" ClientTypeNormal examplePartialWorld]
    networksPostCluster_partially_created
    [OF part, of "exampleRequest Map.empty"
       "exampleClusterEnv [examplePeer ''b'' None]" ClientTypeNormal examplePartialWorld]
  show ?thesis
    using part
    by (simp add: create_defs example_defs examplePartial_def examplePartialWorld_def fun_eq_iff)
qed

section \<open>Update: the lifecycle event and the scope of the changed keys\<close>

lemmas put_defs = networkPut_def doNetworkUpdate_def mergedConfig_def changedConfig_def
  getv_def stripNodeSpecificNetworkConfig_def log_def

text \<open>
  C3 fails on the code. \<open>networkPut\<close> sends the network-updated lifecycle event after
  \<open>doNetworkUpdate\<close> returns, whatever it returns: here the driver's \<open>Validate\<close> rejects
  the merged config, the response is bad_request, and the event is in the trace; and
  here the driver's \<open>Update\<close> fails, and the event is in the trace as well.
\<close>

theorem networkPut_event_after_failed_validation:
  "networkPut exampleNsk
     (examplePutEnv
        ((exampleNetwork Map.empty NetworkStatusCreated)
           \<lparr>n_status := NetworkStatusCreated, n_validate := (\<lambda>_. Some (Error ''invalid''))\<rparr>)
        \<lparr>put_description = [], put_config = [''mtu'' \<mapsto> ''x'']\<rparr>)
     False (examplePut []) exampleWorld
   = (BadRequest (Error ''invalid''),
      exampleWorld\<lparr>w_trace :=
        [Ok NetworkProject, Ok (LoadByName ''n1''),
         Failed (DriverValidate [''mtu'' \<mapsto> ''x'']),
         Ok (SendLifecycle LifecycleNetworkUpdated)]\<rparr>)
   \<and> networkPut exampleNsk
     (examplePutEnv
        ((exampleNetwork Map.empty NetworkStatusCreated)
           \<lparr>n_status := NetworkStatusCreated, n_update := (\<lambda>_ _ _. Some (Error ''failed''))\<rparr>)
        \<lparr>put_description = [], put_config = [''mtu'' \<mapsto> ''9000'']\<rparr>)
     False (examplePut []) exampleWorld
   = (SmartError (Error ''failed''),
      exampleWorld\<lparr>w_trace :=
        [Ok NetworkProject, Ok (LoadByName ''n1''),
         Ok (DriverValidate [''mtu'' \<mapsto> ''9000'']),
         Failed (DriverUpdate \<lparr>put_description = [], put_config = [''mtu'' \<mapsto> ''9000'']\<rparr>
                   [] ClientTypeNormal),
         Ok (SendLifecycle LifecycleNetworkUpdated)]\<rparr>)"
  by (simp add: put_defs examplePutEnv_def exampleNetwork_def examplePut_def exampleWorld_def)

lemma violation_iff:
  "scope_violation nsk r n req =
     (if pr_target r = [] then (\<exists>k \<in> dom (changedConfig (n_config n) (put_config req)). nsk k)
      else (\<exists>k \<in> dom (changedConfig (n_config n) (put_config req)). \<not> nsk k))"
  by (auto simp: scope_violation_def changedConfig_def dom_def split: option.splits if_splits)

lemma doNetworkUpdate_fst:
  "fst (doNetworkUpdate nsk n req t ct m cl w) = fst (doNetworkUpdate nsk n req t ct m cl w')"
  by (simp add: doNetworkUpdate_def Let_def invoke_def split: option.splits)

lemma doNetworkUpdate_validates:
  "\<exists>e rest. w_trace (snd (doNetworkUpdate nsk n req t ct m cl w)) = w_trace w @ e # rest
      \<and> call_of e = DriverValidate (mergedConfig nsk n req t m cl)"
  by (auto simp add: doNetworkUpdate_def Let_def invoke_def split: option.splits)

lemma networkPut_rejected:
  assumes "clustered" "pe_forwarded env = None" "pe_loadByName env = Inr n"
    "pe_body env = Inr req" "scope_violation nsk r n req"
  shows "is_error (fst (networkPut nsk env clustered r w))
       \<and> (\<exists>evs. w_trace (snd (networkPut nsk env clustered r w)) = w_trace w @ evs
             \<and> (\<forall>x \<in> set evs. \<not> is_update_call (call_of x)))
       \<and> (scope_gates env clustered nsk r n \<longrightarrow>
             is_badRequest (fst (networkPut nsk env clustered r w)))"
  using assms
  unfolding violation_iff
  by (cases "pe_networkProject env"; cases "pe_networkName env")
     (auto simp: networkPut_def scope_gates_def Let_def split: option.splits prod.splits)

lemma networkPut_passes:
  assumes "clustered" "pe_forwarded env = None" "pe_loadByName env = Inr n"
    "pe_body env = Inr req" "\<not> scope_violation nsk r n req" "scope_gates env clustered nsk r n"
  shows "fst (networkPut nsk env clustered r w)
           = fst (doNetworkUpdate nsk n req (pr_target r) (pr_clientType r) (pr_method r)
                    clustered w)
       \<and> (\<exists>e \<in> set (w_trace (snd (networkPut nsk env clustered r w))).
             call_of e = DriverValidate
               (mergedConfig nsk n req (pr_target r) (pr_method r) clustered))"
proof -
  from assms(6) obtain p pc name where
    g: "pe_networkProject env = Inr (p, pc)" "pe_networkName env = Inr name"
       "pe_networkAllowed env pc name (n_isManaged n)"
       "\<not> (pr_target r = [] \<and> n_status n \<noteq> NetworkStatusCreated)"
       "pe_etagCheck env
          (n_name n, n_isManaged n, n_type n, n_description n,
           if pr_target r = [] \<and> clustered
           then stripNodeSpecificNetworkConfig nsk (n_config n) else n_config n) = None"
    by (cases "pe_networkProject env"; cases "pe_networkName env")
       (auto simp: scope_gates_def)
  define w2 where "w2 = log (Ok (LoadByName name)) (log (Ok NetworkProject) w)"
  define D where "D = doNetworkUpdate nsk n req (pr_target r) (pr_clientType r) (pr_method r)
                    clustered w2"
  have nv: "\<not> (clustered \<and> pr_target r = []
             \<and> (\<exists>k \<in> dom (changedConfig (n_config n) (put_config req)). nsk k))"
       "\<not> (clustered \<and> pr_target r \<noteq> []
             \<and> (\<exists>k \<in> dom (changedConfig (n_config n) (put_config req)). \<not> nsk k))"
    using assms(5) unfolding violation_iff by (auto split: if_splits)
  have R: "networkPut nsk env clustered r w
           = (fst D, log (Ok (SendLifecycle LifecycleNetworkUpdated)) (snd D))"
    using assms(2,3,4) g nv
    by (auto simp: networkPut_def Let_def w2_def D_def split: prod.splits)
  from doNetworkUpdate_validates [of nsk n req "pr_target r" "pr_clientType r" "pr_method r" clustered w2]
  obtain e rest where "w_trace (snd D) = w_trace w2 @ e # rest"
    "call_of e = DriverValidate (mergedConfig nsk n req (pr_target r) (pr_method r) clustered)"
    unfolding D_def by blast
  then show ?thesis
    unfolding R using doNetworkUpdate_fst [of nsk n req _ _ _ clustered w2 w]
    by (auto simp: D_def)
qed

text \<open>
  C5. The server is clustered, the request is handled on this member, \<open>n\<close> is the
  loaded network and \<open>req\<close> the decoded body. A key counts as changed when its requested
  value is not the current one, a key the current config lacks reading as the empty
  string. If some changed key is node-specific and there is no target, or some changed
  key is not node-specific and there is a target, the request fails: the response is
  an error, no driver \<open>Validate\<close> or \<open>Update\<close> is called and no event is sent; when the
  checks ahead of the scope check pass, the response is bad_request. Keys whose
  requested value is the current one are exempt: a request with no changed key of the
  wrong scope passes the check, so that the driver validates the merged config and the
  response is the one of \<open>doNetworkUpdate\<close>.
\<close>

theorem networkPut_scope_check:
  assumes "clustered"
    and "pe_forwarded env = None"
    and "pe_loadByName env = Inr n"
    and "pe_body env = Inr req"
  shows "(scope_violation nsk r n req \<longrightarrow>
            is_error (fst (networkPut nsk env clustered r w))
            \<and> (\<exists>evs. w_trace (snd (networkPut nsk env clustered r w)) = w_trace w @ evs
                  \<and> (\<forall>x \<in> set evs. \<not> is_update_call (call_of x)))
            \<and> (scope_gates env clustered nsk r n \<longrightarrow>
                  is_badRequest (fst (networkPut nsk env clustered r w))))
       \<and> (\<not> scope_violation nsk r n req \<and> scope_gates env clustered nsk r n \<longrightarrow>
            fst (networkPut nsk env clustered r w)
              = fst (doNetworkUpdate nsk n req (pr_target r) (pr_clientType r) (pr_method r)
                       clustered w)
            \<and> (\<exists>e \<in> set (w_trace (snd (networkPut nsk env clustered r w))).
                  call_of e = DriverValidate
                    (mergedConfig nsk n req (pr_target r) (pr_method r) clustered)))"
  using networkPut_rejected [OF assms] networkPut_passes [OF assms] by blast


theorem networkPut_scope_check_witness:
  "scope_violation exampleNsk (examplePut [])
     (exampleNetwork [''parent'' \<mapsto> ''eth0'', ''mtu'' \<mapsto> ''1500''] NetworkStatusCreated
        \<lparr>n_status := NetworkStatusCreated\<rparr>)
     \<lparr>put_description = [], put_config = [''parent'' \<mapsto> ''eth1'']\<rparr>
   \<and> networkPut exampleNsk
        (examplePutEnv
           (exampleNetwork [''parent'' \<mapsto> ''eth0'', ''mtu'' \<mapsto> ''1500''] NetworkStatusCreated
              \<lparr>n_status := NetworkStatusCreated\<rparr>)
           \<lparr>put_description = [], put_config = [''parent'' \<mapsto> ''eth1'']\<rparr>)
        True (examplePut []) exampleWorld
       = (BadRequest (Error ''Config key is cluster member specific''),
          exampleWorld\<lparr>w_trace := [Ok NetworkProject, Ok (LoadByName ''n1'')]\<rparr>)
   \<and> fst (networkPut exampleNsk
        (examplePutEnv
           (exampleNetwork [''parent'' \<mapsto> ''eth0'', ''mtu'' \<mapsto> ''1500''] NetworkStatusCreated
              \<lparr>n_status := NetworkStatusCreated\<rparr>)
           \<lparr>put_description = [], put_config = [''mtu'' \<mapsto> ''9000'']\<rparr>)
        True (examplePut ''a'') exampleWorld)
       = BadRequest (Error ''Config key may not be used as member-specific key'')
   \<and> \<not> scope_violation exampleNsk (examplePut [])
     (exampleNetwork [''parent'' \<mapsto> ''eth0'', ''mtu'' \<mapsto> ''1500''] NetworkStatusCreated
        \<lparr>n_status := NetworkStatusCreated\<rparr>)
     \<lparr>put_description = [], put_config = [''parent'' \<mapsto> ''eth0'', ''mtu'' \<mapsto> ''9000'']\<rparr>
   \<and> fst (networkPut exampleNsk
        (examplePutEnv
           (exampleNetwork [''parent'' \<mapsto> ''eth0'', ''mtu'' \<mapsto> ''1500''] NetworkStatusCreated
              \<lparr>n_status := NetworkStatusCreated\<rparr>)
           \<lparr>put_description = [], put_config = [''parent'' \<mapsto> ''eth0'', ''mtu'' \<mapsto> ''9000'']\<rparr>)
        True (examplePut []) exampleWorld)
       = EmptySyncResponse"
  using networkPut_scope_check
    [of True
       "examplePutEnv
           (exampleNetwork [''parent'' \<mapsto> ''eth0'', ''mtu'' \<mapsto> ''1500''] NetworkStatusCreated
              \<lparr>n_status := NetworkStatusCreated\<rparr>)
           \<lparr>put_description = [], put_config = [''parent'' \<mapsto> ''eth1'']\<rparr>"
       "exampleNetwork [''parent'' \<mapsto> ''eth0'', ''mtu'' \<mapsto> ''1500''] NetworkStatusCreated
              \<lparr>n_status := NetworkStatusCreated\<rparr>"
       "\<lparr>put_description = [], put_config = [''parent'' \<mapsto> ''eth1'']\<rparr>"
       exampleNsk "examplePut []" exampleWorld]
  by (auto simp add: violation_iff put_defs examplePutEnv_def exampleNetwork_def examplePut_def
       exampleWorld_def exampleNsk_def dom_def split: if_splits)

section \<open>Rename and delete\<close>

text \<open>
  C7. On a clustered server a rename request is refused with bad_request at once: the
  world is as it was, so no lookup, no check that calls a collaborator and no driver
  \<open>Rename\<close> was made, and the response is the same whatever the project lookup, the
  body, the loaded network and the catalog would have answered.
\<close>

theorem networkPost_clustered_refused:
  assumes "clustered"
  shows "networkPost env clustered w
           = (BadRequest (Error ''Renaming clustered network not supported''), w)
       \<and> (\<forall>env'. networkPost env' clustered w = networkPost env clustered w)
       \<and> (\<forall>newName. Ok (DriverRename newName)
              \<notin> set (drop (length (w_trace w)) (w_trace (snd (networkPost env clustered w))))
            \<and> Failed (DriverRename newName)
              \<notin> set (drop (length (w_trace w)) (w_trace (snd (networkPost env clustered w)))))"
  using assms by (simp add: networkPost_def)

theorem networkPost_clustered_refused_witness:
  "networkPost (exampleRenameEnv (exampleNetwork Map.empty NetworkStatusCreated
                   \<lparr>n_status := NetworkStatusCreated\<rparr>) ''n2'') True exampleWorld
     = (BadRequest (Error ''Renaming clustered network not supported''), exampleWorld)
   \<and> networkPost (exampleRenameEnv (exampleNetwork Map.empty NetworkStatusCreated
                   \<lparr>n_status := NetworkStatusCreated\<rparr>) ''n2'') False exampleWorld
     = (SyncResponseLocation ''/1.0/networks/n2'',
        exampleWorld\<lparr>w_trace :=
          [Ok NetworkProject, Ok (LoadByName ''n1''), Ok DriverIsUsed,
           Ok TxBegin, Ok GetNetworks, Ok TxCommit, Ok (DriverRename ''n2''),
           Ok AuthorizerRenameNetwork, Ok (SendLifecycle (LifecycleNetworkRenamed ''n1''))]\<rparr>)"
  using networkPost_clustered_refused
    [of True "exampleRenameEnv (exampleNetwork Map.empty NetworkStatusCreated
                   \<lparr>n_status := NetworkStatusCreated\<rparr>) ''n2''" exampleWorld]
  by (simp add: networkPost_def exampleRenameEnv_def exampleNetwork_def exampleWorld_def log_def)

text \<open>
  C10. A DELETE that is not a cluster notification, on a loaded network that reports in
  use, fails: the response is an error, the catalog is as it was, and the handler made
  no driver \<open>Delete\<close>, built no notifier, notified no peer, deleted no catalog record and
  sent no event. When the checks ahead of the in-use check pass, \<open>IsUsed\<close> is called and
  the response is bad_request.
\<close>

theorem networkDelete_in_use:
  assumes "\<not> isClusterNotification clientType"
    and "de_loadByName env = Inr n"
    and "n_isUsed n = Inr True"
  shows "is_error (fst (networkDelete env clustered clientType w))
       \<and> w_cat (snd (networkDelete env clustered clientType w)) = w_cat w
       \<and> (\<exists>evs. w_trace (snd (networkDelete env clustered clientType w)) = w_trace w @ evs
             \<and> (\<forall>x \<in> set evs. \<not> is_delete_effect (call_of x)))
       \<and> (delete_gates env n \<longrightarrow>
             fst (networkDelete env clustered clientType w)
               = BadRequest (Error ''The network is currently in use'')
             \<and> (\<exists>evs. w_trace (snd (networkDelete env clustered clientType w)) = w_trace w @ evs
                   \<and> Ok DriverIsUsed \<in> set evs))"
  using assms
  by (cases "de_networkProject env"; cases "de_networkName env")
     (auto simp: networkDelete_def delete_gates_def Let_def split: prod.splits)

theorem networkDelete_in_use_witness:
  "networkDelete (exampleDeleteEnv (exampleNetwork Map.empty NetworkStatusCreated
                    \<lparr>n_isUsed := Inr True\<rparr>) [examplePeer ''b'' None])
       True ClientTypeNormal exampleWorld
     = (BadRequest (Error ''The network is currently in use''),
        exampleWorld\<lparr>w_trace := [Ok NetworkProject, Ok (LoadByName ''n1''), Ok DriverIsUsed]\<rparr>)
   \<and> networkDelete (exampleDeleteEnv (exampleNetwork Map.empty NetworkStatusCreated)
                     [examplePeer ''b'' None])
       True ClientTypeNormal exampleWorld
     = (EmptySyncResponse,
        \<lparr>w_trace = [Ok NetworkProject, Ok (LoadByName ''n1''), Ok DriverIsUsed,
           Ok (DriverDelete ClientTypeNormal), Ok NewNotifier, Ok (PeerDeleteNetwork ''n1''),
           Ok TxBegin, Ok DeleteNetwork, Ok TxCommit, Ok AuthorizerDeleteNetwork,
           Ok (SendLifecycle LifecycleNetworkDeleted)],
         w_cat = exampleCatalog\<lparr>cat_exists := False\<rparr>\<rparr>)"
  using networkDelete_in_use
    [of ClientTypeNormal "exampleDeleteEnv (exampleNetwork Map.empty NetworkStatusCreated
                    \<lparr>n_isUsed := Inr True\<rparr>) [examplePeer ''b'' None]"
       "exampleNetwork Map.empty NetworkStatusCreated \<lparr>n_isUsed := Inr True\<rparr>" True exampleWorld]
  by (simp add: networkDelete_def networkDelete_global_def exampleDeleteEnv_def
       exampleNetwork_def exampleWorld_def log_def isClusterNotification_def examplePeer_def
       notifyDelete_def transaction_def deleteNetwork_def exampleCatalog_def)


section \<open>Listing in the default project\<close>

lemma doNetworkGet_info_name:
  "doNetworkGet_info nsk env allNodes p name nopt = Inr info \<Longrightarrow> net_name info = name"
  by (auto simp: doNetworkGet_info_def Let_def split: option.splits if_splits sum.splits)

lemma doNetworkGet_name:
  assumes "doNetworkGet nsk env allNodes p cfg name = Inr info"
  shows "net_name info = name"
proof -
  obtain nopt apiNet usedBy where
    i: "doNetworkGet_info nsk env allNodes p name nopt = Inr apiNet"
    and r: "info = apiNet\<lparr>net_usedBy := usedBy,
                net_status := (case nopt of None \<Rightarrow> None
                     | Some n \<Rightarrow> Some (if allNodes then n_status n else n_localStatus n))\<rparr>"
    using assms
    by (auto simp: doNetworkGet_def split: if_splits sum.splits)
  from doNetworkGet_info_name [OF i] r show ?thesis by simp
qed


lemma listNetworks_links:
  "listNetworks nsk env cl False hc cfg perm p ns acc
     = Inr (fst acc @ map networkURL (filter (shown nsk env cl False hc cfg perm p) ns), snd acc)"
  by (induction ns arbitrary: acc) (simp_all add: shown_def)

lemma listNetworks_load:
  assumes nomatcherr: "\<forall>info e. le_filterMatch env info \<noteq> Inl e"
  shows "\<exists>infos. listNetworks nsk env cl True hc cfg perm p ns acc
            = Inr (fst acc @ map networkURL (filter (shown nsk env cl True hc cfg perm p) ns),
                   snd acc @ infos)
          \<and> map net_name infos = filter (shown nsk env cl True hc cfg perm p) ns"
proof (induction ns arbitrary: acc)
  case Nil
  then show ?case by simp
next
  case (Cons n ns)
  show ?case
  proof (cases "perm p n")
    case False
    then have "\<not> shown nsk env cl True hc cfg perm p n" by (simp add: shown_def)
    with False Cons.IH [of acc] show ?thesis by simp
  next
    case perm: True
    show ?thesis
    proof (cases "doNetworkGet nsk (le_get env) cl p cfg n")
      case (Inl e)
      with perm have sh: "\<not> shown nsk env cl True hc cfg perm p n" by (simp add: shown_def)
      from Cons.IH [of acc] sh perm Inl show ?thesis by simp
    next
      case (Inr info)
      have name: "net_name info = n" using doNetworkGet_name [OF Inr] .
      have "\<exists>m. (if hc then le_filterMatch env info else Inr True) = Inr m"
        using nomatcherr by (cases "le_filterMatch env info"; cases hc) auto
      then obtain m where m: "(if hc then le_filterMatch env info else Inr True) = Inr m" ..
      show ?thesis
      proof (cases m)
        case True
        with perm Inr m have sh: "shown nsk env cl True hc cfg perm p n"
          by (auto simp: shown_def split: if_splits)
        from Cons.IH [of "(fst acc @ [networkURL n], snd acc @ [info])"] obtain infos where
          "listNetworks nsk env cl True hc cfg perm p ns (fst acc @ [networkURL n], snd acc @ [info])
            = Inr ((fst acc @ [networkURL n]) @ map networkURL (filter (shown nsk env cl True hc cfg perm p) ns),
                   (snd acc @ [info]) @ infos)"
          "map net_name infos = filter (shown nsk env cl True hc cfg perm p) ns"
          by auto
        with sh perm Inr m True name show ?thesis
          by (intro exI [of _ "info # infos"]) simp
      next
        case False
        with perm Inr m have sh: "\<not> shown nsk env cl True hc cfg perm p n"
          by (auto simp: shown_def split: if_splits)
        from Cons.IH [of acc] sh perm Inr m False show ?thesis by simp
      qed
    qed
  qed
qed

lemma listNetworks_result:
  assumes nomatcherr: "\<forall>info e. le_filterMatch env info \<noteq> Inl e"
  shows "\<exists>infos. listNetworks nsk env cl ml hc cfg perm p ns acc
            = Inr (fst acc @ map networkURL (filter (shown nsk env cl ml hc cfg perm p) ns),
                   snd acc @ infos)
          \<and> map net_name infos = (if ml then filter (shown nsk env cl ml hc cfg perm p) ns else [])"
proof (cases ml)
  case True
  with listNetworks_load [OF nomatcherr, of nsk cl hc cfg perm p ns acc] show ?thesis by simp
next
  case False
  with listNetworks_links [of nsk env cl hc cfg perm p ns acc] show ?thesis by simp
qed

lemma addInterfaces_single:
  "\<exists>extra. addInterfaces p [(p, ns)] ifaces = [(p, ns @ extra)]
      \<and> set extra = {i \<in> set ifaces. \<not> prefix ''veth'' i \<and> i \<notin> set ns}
      \<and> distinct extra"
proof (induction ifaces arbitrary: ns)
  case Nil
  then show ?case by simp
next
  case (Cons iface ifaces)
  show ?case
  proof (cases "prefix ''veth'' iface")
    case True
    with Cons.IH [of ns] show ?thesis by auto
  next
    case nv: False
    show ?thesis
    proof (cases "iface \<in> set ns")
      case True
      with nv Cons.IH [of ns] show ?thesis by (auto simp: namesOf_def)
    next
      case False
      from Cons.IH [of "ns @ [iface]"] obtain extra where
        e: "addInterfaces p [(p, ns @ [iface])] ifaces = [(p, (ns @ [iface]) @ extra)]"
           "set extra = {i \<in> set ifaces. \<not> prefix ''veth'' i \<and> i \<notin> set (ns @ [iface])}"
           "distinct extra"
        by blast
      have step: "addInterfaces p [(p, ns)] (iface # ifaces) = addInterfaces p [(p, ns @ [iface])] ifaces"
        using nv False by (simp add: namesOf_def)
      show ?thesis
        unfolding step using e nv False
        by (intro exI [of _ "iface # extra"]) auto
    qed
  qed
qed

lemmas list_defs = networksGet_def exampleListEnv_def namesOf_def networkURL_def

text \<open>
  C8, as the claim states it, fails. In the default project with the managed network
  \<^verbatim>\<open>n1\<close> and the interfaces \<^verbatim>\<open>eth0\<close> and \<^verbatim>\<open>veth1a\<close>, a caller who may not view \<^verbatim>\<open>n1\<close> gets
  \<^verbatim>\<open>eth0\<close> only. With \<^verbatim>\<open>all-projects\<close>, where project \<^verbatim>\<open>p1\<close> also has a network \<^verbatim>\<open>n1\<close>, the
  name \<^verbatim>\<open>n1\<close> is returned twice (in whatever order the projects are ranged over).
\<close>

theorem networksGet_listing_counterexample:
  "networksGet exampleNsk (exampleListEnv [''n1''] [''eth0'', ''veth1a''] (\<lambda>p n. n \<noteq> ''n1'')) False
       \<lparr>lr_recursion = False, lr_allProjects = False\<rparr>
     = SyncResponseLinks [''/1.0/networks/eth0'']
   \<and> \<not> claimed_listing (SyncResponseLinks [''/1.0/networks/eth0'']) [''n1''] [''eth0'', ''veth1a'']
   \<and> networksGet exampleNsk (exampleListEnv [''n1''] [''eth0'', ''veth1a''] (\<lambda>p n. True)) False
       \<lparr>lr_recursion = False, lr_allProjects = True\<rparr>
     = SyncResponseLinks [''/1.0/networks/n1'', ''/1.0/networks/eth0'', ''/1.0/networks/n1'']
   \<and> \<not> claimed_listing
         (SyncResponseLinks [''/1.0/networks/n1'', ''/1.0/networks/eth0'', ''/1.0/networks/n1''])
         [''n1''] [''eth0'', ''veth1a'']"
  by (simp add: list_defs claimed_listing_def)

text \<open>
  C8, amended. A list request without \<^verbatim>\<open>all-projects\<close> whose effective project is the
  default project, on a catalog whose names are distinct, where the lookups succeed and
  the filter match does not fail: the returned names (of the URLs, or of the records
  with \<^verbatim>\<open>recursion\<close>) are exactly the names among the managed names and the interface
  names not starting with \<^verbatim>\<open>veth\<close> that the loops keep (\<open>shown\<close>: the caller may view the
  entry; the project's policy allows it, or with loaded objects \<open>doNetworkGet\<close> succeeds
  and the filter matches), each once, managed names first.
\<close>

theorem networksGet_default_project:
  assumes project: "le_networkProject env = Inr (''default'', cfg)"
    and parse: "le_filterParse env = Inr hasClauses"
    and single: "\<not> lr_allProjects r"
    and managed: "le_getNetworks env ''default'' = Inr managed" "distinct managed"
    and ifaces: "le_interfaces env = Inr ifaces"
    and checker: "le_permissionChecker env = Inr perm"
    and nomatcherr: "\<forall>info e. le_filterMatch env info \<noteq> Inl e"
  shows "\<exists>names. distinct names
      \<and> set names =
          {n \<in> set managed \<union> {i \<in> set ifaces. \<not> prefix ''veth'' i}.
             shown nsk env clustered (lr_recursion r \<or> hasClauses) hasClauses cfg perm ''default'' n}
      \<and> (if lr_recursion r
          then \<exists>infos. networksGet nsk env clustered r = SyncResponseNetworks infos
                 \<and> map net_name infos = names
          else networksGet nsk env clustered r = SyncResponseLinks (map networkURL names))"
proof -
  define ml where "ml = (lr_recursion r \<or> hasClauses)"
  define sh where "sh = shown nsk env clustered ml hasClauses cfg perm ''default''"
  from addInterfaces_single [of "''default''" managed ifaces] obtain extra where
    extra: "addInterfaces ''default'' [(''default'', managed)] ifaces = [(''default'', managed @ extra)]"
      "set extra = {i \<in> set ifaces. \<not> prefix ''veth'' i \<and> i \<notin> set managed}"
      "distinct extra"
    by blast
  define cands where "cands = managed @ extra"
  have dc: "distinct cands" using extra managed(2) by (auto simp: cands_def)
  have sc: "set cands = set managed \<union> {i \<in> set ifaces. \<not> prefix ''veth'' i}"
    using extra by (auto simp: cands_def)
  from listNetworks_result [OF nomatcherr, of nsk clustered ml hasClauses cfg perm "''default''" cands "([], [])"]
  obtain infos where
    l: "listNetworks nsk env clustered ml hasClauses cfg perm ''default'' cands ([], [])
          = Inr (map networkURL (filter sh cands), infos)"
       "map net_name infos = (if ml then filter sh cands else [])"
    unfolding sh_def by auto
  have R: "networksGet nsk env clustered r =
      (if \<not> lr_recursion r then SyncResponseLinks (map networkURL (filter sh cands))
       else SyncResponseNetworks infos)"
    using project parse single managed(1) ifaces checker extra(1) l(1)
    by (simp add: networksGet_def ml_def cands_def)
  have one: "distinct (filter sh cands)" using dc by simp
  have two: "set (filter sh cands) =
      {n \<in> set managed \<union> {i \<in> set ifaces. \<not> prefix ''veth'' i}. sh n}"
    using sc by auto
  have three: "if lr_recursion r
          then \<exists>infos. networksGet nsk env clustered r = SyncResponseNetworks infos
                 \<and> map net_name infos = filter sh cands
          else networksGet nsk env clustered r = SyncResponseLinks (map networkURL (filter sh cands))"
  proof (cases "lr_recursion r")
    case True
    then have "ml" by (simp add: ml_def)
    with True R l(2) show ?thesis by simp
  next
    case False
    with R show ?thesis by simp
  qed
  show ?thesis
    unfolding ml_def [symmetric] sh_def [symmetric]
    using one two three by blast
qed


theorem networksGet_default_project_witness:
  "networksGet exampleNsk
       (exampleListEnv [''n1'', ''n2''] [''eth0'', ''veth1a'', ''n1'', ''eth0''] (\<lambda>p n. n \<noteq> ''n2''))
       False \<lparr>lr_recursion = False, lr_allProjects = False\<rparr>
     = SyncResponseLinks [''/1.0/networks/n1'', ''/1.0/networks/eth0'']
   \<and> (case networksGet exampleNsk
            (exampleListEnv [''n1'', ''vethn''] [''eth0'', ''veth1a''] (\<lambda>p n. True))
            False \<lparr>lr_recursion = True, lr_allProjects = False\<rparr> of
         SyncResponseNetworks infos \<Rightarrow> map net_name infos
       | _ \<Rightarrow> []) = [''n1'', ''eth0'']"
  using networksGet_default_project
    [of "exampleListEnv [''n1'', ''n2''] [''eth0'', ''veth1a'', ''n1'', ''eth0''] (\<lambda>p n. n \<noteq> ''n2'')"
       Map.empty False "\<lparr>lr_recursion = False, lr_allProjects = False\<rparr>" "[''n1'', ''n2'']"
       "[''eth0'', ''veth1a'', ''n1'', ''eth0'']" "\<lambda>p n. n \<noteq> ''n2''" exampleNsk False]
  by (simp add: list_defs doNetworkGet_def doNetworkGet_info_def exampleGetEnv_def
       exampleNetwork_def)


section \<open>Startup: classification by dependency\<close>

lemmas startup_defs = startupPass_def loadAndInitNetwork_def initNetwork_def bucketInsert_def
  bucketDelete_def emit_def initialNetworks_def networkPriorityStandalone_def
  networkPriorityPhysical_def networkPriorityLogical_def getv_def

text \<open>
  C9, as the claim states it, fails. The first pass over a catalog whose only network
  has \<^verbatim>\<open>parent\<close> set moves it from the standalone to the physical bucket and then, when
  the same pass reaches the physical bucket, starts it.
\<close>

theorem startupPass_counterexample:
  "ss_trace (startupPass (exampleLoad [''parent'' \<mapsto> ''eth0'']) Map.empty True
                   (initialNetworks [(''default'', ''n1'')]))
     = [Loaded (''default'', ''n1''), Validated (''default'', ''n1''),
        Moved (''default'', ''n1'') networkPriorityStandalone networkPriorityPhysical,
        Loaded (''default'', ''n1''), Validated (''default'', ''n1''),
        Started (''default'', ''n1''), WarningResolved (''default'', ''n1'')]
   \<and> \<not> claimed_skips_pass
         (ss_trace (startupPass (exampleLoad [''parent'' \<mapsto> ''eth0'']) Map.empty True
                   (initialNetworks [(''default'', ''n1'')])))"
proof -
  define tr where "tr =
       [Loaded (''default'', ''n1''), Validated (''default'', ''n1''),
        Moved (''default'', ''n1'') networkPriorityStandalone networkPriorityPhysical,
        Loaded (''default'', ''n1''), Validated (''default'', ''n1''),
        Started (''default'', ''n1''), WarningResolved (''default'', ''n1'')]"
  have run: "ss_trace (startupPass (exampleLoad [''parent'' \<mapsto> ''eth0'']) Map.empty True
                   (initialNetworks [(''default'', ''n1'')])) = tr"
    by (simp add: startup_defs exampleLoad_def exampleNetwork_def tr_def)
  have "Moved (''default'', ''n1'') networkPriorityStandalone networkPriorityPhysical \<in> set tr"
    and "Started (''default'', ''n1'') \<in> set tr"
    by (simp_all add: tr_def)
  then have "\<not> claimed_skips_pass tr"
    unfolding claimed_skips_pass_def by blast
  with run show ?thesis by (simp add: tr_def)
qed

text \<open>
  C9, amended. A visit of a startup pass (\<open>loadAndInitNetwork\<close>) to a network that loads
  and validates: if its config has a non-empty \<^verbatim>\<open>parent\<close> key and the bucket it is
  visited in is not the physical one, the visit moves it to the physical bucket and
  returns without a \<open>Start\<close> call, whatever its \<^verbatim>\<open>network\<close> key holds (the parent check
  comes first). In every visit the load and the validation come first, and a \<open>Start\<close>
  call is made only when neither check asked for a move.
\<close>

theorem loadAndInitNetwork_parent_moves:
  assumes "loadedNetworks pn = None"
    and "loadByName pn = Inr n"
    and "n_validate n (n_config n) = None"
  shows "(getv (n_config n) ''parent'' \<noteq> [] \<and> priority \<noteq> networkPriorityPhysical \<longrightarrow>
            loadAndInitNetwork loadByName loadedNetworks pn priority firstPass st
              = (Inr (),
                 \<lparr>ss_initNetworks =
                    (ss_initNetworks st)
                      (priority := removeAll pn (ss_initNetworks st priority),
                       networkPriorityPhysical :=
                         List.insert pn (ss_initNetworks st networkPriorityPhysical)),
                  ss_trace = ss_trace st @
                    [Loaded pn, Validated pn, Moved pn priority networkPriorityPhysical]\<rparr>)
            \<and> pn \<in> set (ss_initNetworks
                 (snd (loadAndInitNetwork loadByName loadedNetworks pn priority firstPass st))
                 networkPriorityPhysical)
            \<and> pn \<notin> set (ss_initNetworks
                 (snd (loadAndInitNetwork loadByName loadedNetworks pn priority firstPass st))
                 priority))
       \<and> (\<exists>rest. ss_trace (snd (loadAndInitNetwork loadByName loadedNetworks pn priority firstPass st))
                    = ss_trace st @ Loaded pn # Validated pn # rest
             \<and> ((\<exists>e \<in> set rest. is_start e) \<longrightarrow>
                   \<not> (getv (n_config n) ''parent'' \<noteq> [] \<and> priority \<noteq> networkPriorityPhysical)
                   \<and> \<not> (getv (n_config n) ''network'' \<noteq> [] \<and> priority \<noteq> networkPriorityLogical)))"
  using assms
  by (cases "n_start n")
     (auto simp: loadAndInitNetwork_def initNetwork_def bucketInsert_def bucketDelete_def emit_def
       fun_upd_twist)


theorem loadAndInitNetwork_parent_moves_witness:
  "fst (loadAndInitNetwork (exampleLoad [''parent'' \<mapsto> ''eth0'', ''network'' \<mapsto> ''uplink''])
          Map.empty (''default'', ''n1'') networkPriorityStandalone True
          (initialNetworks [(''default'', ''n1'')])) = Inr ()
   \<and> ss_trace (snd (loadAndInitNetwork
          (exampleLoad [''parent'' \<mapsto> ''eth0'', ''network'' \<mapsto> ''uplink''])
          Map.empty (''default'', ''n1'') networkPriorityStandalone True
          (initialNetworks [(''default'', ''n1'')])))
       = [Loaded (''default'', ''n1''), Validated (''default'', ''n1''),
          Moved (''default'', ''n1'') networkPriorityStandalone networkPriorityPhysical]
   \<and> ss_initNetworks (snd (loadAndInitNetwork
          (exampleLoad [''parent'' \<mapsto> ''eth0'', ''network'' \<mapsto> ''uplink''])
          Map.empty (''default'', ''n1'') networkPriorityStandalone True
          (initialNetworks [(''default'', ''n1'')]))) networkPriorityPhysical
       = [(''default'', ''n1'')]
   \<and> ss_initNetworks (snd (loadAndInitNetwork
          (exampleLoad [''parent'' \<mapsto> ''eth0'', ''network'' \<mapsto> ''uplink''])
          Map.empty (''default'', ''n1'') networkPriorityStandalone True
          (initialNetworks [(''default'', ''n1'')]))) networkPriorityStandalone
       = []
   \<and> ss_trace (startupPass (exampleLoad [''parent'' \<mapsto> ''eth0'', ''network'' \<mapsto> ''uplink''])
          Map.empty True (initialNetworks [(''default'', ''n1'')]))
       = [Loaded (''default'', ''n1''), Validated (''default'', ''n1''),
          Moved (''default'', ''n1'') networkPriorityStandalone networkPriorityPhysical,
          Loaded (''default'', ''n1''), Validated (''default'', ''n1''),
          Moved (''default'', ''n1'') networkPriorityPhysical networkPriorityLogical,
          Loaded (''default'', ''n1''), Validated (''default'', ''n1''),
          Moved (''default'', ''n1'') networkPriorityLogical networkPriorityPhysical]"
  using loadAndInitNetwork_parent_moves
    [of Map.empty "(''default'', ''n1'')"
       "exampleLoad [''parent'' \<mapsto> ''eth0'', ''network'' \<mapsto> ''uplink'']"
       "exampleNetwork [''parent'' \<mapsto> ''eth0'', ''network'' \<mapsto> ''uplink''] NetworkStatusCreated"
       networkPriorityStandalone True "initialNetworks [(''default'', ''n1'')]"]
  by (simp add: startup_defs exampleLoad_def exampleNetwork_def)


section \<open>Local actuation: an already created member and the validated config\<close>

text \<open>
  C6. A call of \<open>doNetworksCreate\<close> on a network whose local status is already created
  makes exactly one call, the driver's \<open>Validate\<close>: no driver \<open>Create\<close>, no driver
  \<open>Start\<close>, no \<open>NetworkNodeCreated\<close>, and the catalog is as it was. When the validation
  passes, it returns success.
\<close>

theorem doNetworksCreate_already_created:
  assumes "n_localStatus n = NetworkStatusCreated"
  shows "(\<exists>e. w_trace (snd (doNetworksCreate r n ct w)) = w_trace w @ [e]
               \<and> call_of e = DriverValidate (validateConfig n ct))
       \<and> (\<forall>evs. w_trace (snd (doNetworksCreate r n ct w)) = w_trace w @ evs \<longrightarrow>
             (\<forall>e \<in> set evs. call_of e \<noteq> DriverCreate ct \<and> call_of e \<noteq> DriverStart
                \<and> call_of e \<noteq> NetworkNodeCreated))
       \<and> w_cat (snd (doNetworksCreate r n ct w)) = w_cat w
       \<and> (n_validate n (validateConfig n ct) = None
            \<longrightarrow> fst (doNetworksCreate r n ct w) = Inr ())"
  using assms
  by (cases "n_validate n (validateConfig n ct)") (auto simp: doNetworksCreate_def)

theorem doNetworksCreate_already_created_witness:
  "n_localStatus (exampleNetwork [''ipv4.address'' \<mapsto> ''none''] NetworkStatusCreated)
     = NetworkStatusCreated
   \<and> fst (doNetworksCreate None
            (exampleNetwork [''ipv4.address'' \<mapsto> ''none''] NetworkStatusCreated)
            ClientTypeNormal exampleWorld) = Inr ()
   \<and> w_cat (snd (doNetworksCreate None
            (exampleNetwork [''ipv4.address'' \<mapsto> ''none''] NetworkStatusCreated)
            ClientTypeNormal exampleWorld)) = exampleCatalog
   \<and> w_trace (snd (doNetworksCreate None
            (exampleNetwork [''ipv4.address'' \<mapsto> ''none''] NetworkStatusCreated)
            ClientTypeNormal exampleWorld))
       = [Ok (DriverValidate [''ipv4.address'' \<mapsto> ''none''])]"
  using doNetworksCreate_already_created
    [of "exampleNetwork [''ipv4.address'' \<mapsto> ''none''] NetworkStatusCreated"
      None ClientTypeNormal exampleWorld]
  by (simp add: exampleNetwork_def exampleWorld_def doNetworksCreate_def validateConfig_def)

text \<open>
  C4, as the claim states it, fails: for a joiner the key \<^verbatim>\<open>security.aclsx\<close> begins with
  \<^verbatim>\<open>security.acls\<close>, so the claim has it removed, but the code keeps it in the config it
  validates.
\<close>

theorem validateConfig_joiner_counterexample:
  "validateConfig (exampleNetwork [''security.aclsx'' \<mapsto> ''a''] NetworkStatusPending)
     ClientTypeJoiner ''security.aclsx'' = Some ''a''
   \<and> claimed_joinerConfig [''security.aclsx'' \<mapsto> ''a''] ''security.aclsx'' = None"
  by (simp add: validateConfig_def exampleNetwork_def claimed_joinerConfig_def)

text \<open>
  C4, amended. The first call of \<open>doNetworksCreate\<close> is the driver's \<open>Validate\<close>, it is
  the only \<open>Validate\<close> call, and its argument is: for a joiner, the network's effective
  config without the key \<^verbatim>\<open>security.acls\<close> and without the keys that begin with
  \<^verbatim>\<open>security.acls.\<close> (the dot included), every other key with its value; for every other
  client type, the full effective config.
\<close>

theorem doNetworksCreate_validated_config:
  "(\<exists>e rest. w_trace (snd (doNetworksCreate r n ct w)) = w_trace w @ e # rest
        \<and> call_of e = DriverValidate (validateConfig n ct)
        \<and> (\<forall>x \<in> set rest. \<forall>c. call_of x \<noteq> DriverValidate c))
   \<and> (ct = ClientTypeJoiner \<longrightarrow>
        dom (validateConfig n ct)
          = {k \<in> dom (n_config n). k \<noteq> ''security.acls'' \<and> \<not> prefix ''security.acls.'' k}
        \<and> (\<forall>k \<in> dom (validateConfig n ct). validateConfig n ct k = n_config n k))
   \<and> (ct \<noteq> ClientTypeJoiner \<longrightarrow> validateConfig n ct = n_config n)"
proof -
  have events: "\<exists>e rest. w_trace (snd (doNetworksCreate r n ct w)) = w_trace w @ e # rest
        \<and> call_of e = DriverValidate (validateConfig n ct)
        \<and> (\<forall>x \<in> set rest. \<forall>c. call_of x \<noteq> DriverValidate c)"
    by (cases "n_validate n (validateConfig n ct)"; cases "n_create n ct"; cases "n_start n";
        cases r)
       (auto simp add: doNetworksCreate_def nodeCreated_tx revertCreate_trace)
  have filtered: "ct = ClientTypeJoiner \<longrightarrow>
        dom (validateConfig n ct)
          = {k \<in> dom (n_config n). k \<noteq> ''security.acls'' \<and> \<not> prefix ''security.acls.'' k}
        \<and> (\<forall>k \<in> dom (validateConfig n ct). validateConfig n ct k = n_config n k)"
    by (auto simp: validateConfig_def dom_def split: if_splits)
  have full: "ct \<noteq> ClientTypeJoiner \<longrightarrow> validateConfig n ct = n_config n"
    by (simp add: validateConfig_def)
  from events filtered full show ?thesis by blast
qed

theorem doNetworksCreate_validated_config_witness:
  "dom (validateConfig
          (exampleNetwork [''security.acls'' \<mapsto> ''a'', ''security.acls.default.egress.action'' \<mapsto> ''b'',
                           ''security.aclsx'' \<mapsto> ''c'', ''ipv4.address'' \<mapsto> ''d'']
             NetworkStatusPending) ClientTypeJoiner)
     = {''security.aclsx'', ''ipv4.address''}
   \<and> validateConfig
          (exampleNetwork [''security.acls'' \<mapsto> ''a''] NetworkStatusPending) ClientTypeNormal
        ''security.acls'' = Some ''a''"
  using doNetworksCreate_validated_config
    [of None "exampleNetwork [''security.acls'' \<mapsto> ''a'', ''security.acls.default.egress.action'' \<mapsto> ''b'',
                           ''security.aclsx'' \<mapsto> ''c'', ''ipv4.address'' \<mapsto> ''d'']
             NetworkStatusPending" ClientTypeJoiner exampleWorld]
    doNetworksCreate_validated_config
    [of None "exampleNetwork [''security.acls'' \<mapsto> ''a''] NetworkStatusPending"
       ClientTypeNormal exampleWorld]
  by (auto simp add: exampleNetwork_def validateConfig_def dom_def split: if_splits)

end
